theory Spec2Isabelle
  imports Main
begin

section \<open>JavaScript values and strings\<close>

text \<open>
  The generator service (\<^verbatim>\<open>app/service/gen.js\<close>) is JavaScript. The values that flow
  through the records of the generator are \<^verbatim>\<open>undefined\<close>, \<^verbatim>\<open>null\<close>, numbers and
  strings; strict equality \<^verbatim>\<open>===\<close> on them is equality of \<open>jsval\<close> (a string never
  equals a number). A property that was never assigned reads as \<^verbatim>\<open>undefined\<close>.

  Strings are byte lists (UTF-8). Only the ASCII letters are case-mapped; every suffix
  and every name the service compares with is ASCII.
\<close>

datatype jsval = JUndefined | JNull | JNum int | JStr string

definition truthy :: "jsval \<Rightarrow> bool" where
  "truthy v = (case v of JUndefined \<Rightarrow> False | JNull \<Rightarrow> False
                 | JNum n \<Rightarrow> n \<noteq> 0 | JStr s \<Rightarrow> s \<noteq> [])"

definition lowerLetters :: string where
  "lowerLetters = ''abcdefghijklmnopqrstuvwxyz''"

definition upperLetters :: string where
  "upperLetters = ''ABCDEFGHIJKLMNOPQRSTUVWXYZ''"

definition toLowerChar :: "char \<Rightarrow> char" where
  "toLowerChar c = (case map_of (zip upperLetters lowerLetters) c of
                      None \<Rightarrow> c | Some l \<Rightarrow> l)"

definition toUpperChar :: "char \<Rightarrow> char" where
  "toUpperChar c = (case map_of (zip lowerLetters upperLetters) c of
                      None \<Rightarrow> c | Some u \<Rightarrow> u)"

definition toLowerCase :: "string \<Rightarrow> string" where
  "toLowerCase s = map toLowerChar s"

definition toUpperCase :: "string \<Rightarrow> string" where
  "toUpperCase s = map toUpperChar s"

definition endsWith :: "string \<Rightarrow> string \<Rightarrow> bool" where
  "endsWith s t = (length t \<le> length s \<and> drop (length s - length t) s = t)"

definition startsWith :: "string \<Rightarrow> string \<Rightarrow> bool" where
  "startsWith s t = (take (length t) s = t)"

text \<open>\<^verbatim>\<open>s.indexOf(c, from)\<close> for a one-character pattern: the position, or \<open>-1\<close>.\<close>

definition indexOfFrom :: "string \<Rightarrow> char \<Rightarrow> nat \<Rightarrow> int" where
  "indexOfFrom s c from =
     (let r = drop from s in
      if c \<in> set r then int from + int (length (takeWhile (\<lambda>x. x \<noteq> c) r)) else - 1)"

definition indexOf :: "string \<Rightarrow> char \<Rightarrow> int" where
  "indexOf s c = indexOfFrom s c 0"

text \<open>\<^verbatim>\<open>s.substring(a, b)\<close>: both ends clamped to the length, swapped when \<open>a > b\<close>.\<close>

definition substring :: "string \<Rightarrow> nat \<Rightarrow> nat \<Rightarrow> string" where
  "substring s a b =
     (let a' = min a (length s); b' = min b (length s)
      in take (max a' b' - min a' b') (drop (min a' b') s))"

definition isWhiteSpace :: "char \<Rightarrow> bool" where
  "isWhiteSpace c = (let n = (of_char c :: nat) in n = 32 \<or> (9 \<le> n \<and> n \<le> 13))"

definition isDigit :: "char \<Rightarrow> bool" where
  "isDigit c = (let n = (of_char c :: nat) in 48 \<le> n \<and> n \<le> 57)"

text \<open>
  \<^verbatim>\<open>parseInt(s, 10)\<close>: leading white space and one sign are skipped, the longest run of
  decimal digits is read, and the result is \<^verbatim>\<open>NaN\<close> (here \<open>None\<close>) when there is no digit.
\<close>

definition parseInt :: "string \<Rightarrow> int option" where
  "parseInt s =
     (let t = dropWhile isWhiteSpace s;
          neg = (take 1 t = ''-'');
          u = (if take 1 t = ''-'' \<or> take 1 t = ''+'' then drop 1 t else t);
          ds = takeWhile isDigit u;
          m = foldl (\<lambda>a c. 10 * a + (int (of_char c) - 48)) 0 ds
      in if ds = [] then None else Some (if neg then - m else m))"

text \<open>\<^verbatim>\<open>util.contains(src, elem)\<close> on an array: \<^verbatim>\<open>src.includes(elem)\<close>.\<close>

definition contains :: "'a list \<Rightarrow> 'a \<Rightarrow> bool" where
  "contains src elem = (elem \<in> set src)"

section \<open>Configuration constants (\<^verbatim>\<open>app/extend/config.js\<close>)\<close>

definition dbTablePrefix :: string where "dbTablePrefix = ''la_''"
definition isRemoveTablePrefix :: bool where "isRemoveTablePrefix = True"

definition typeString :: string where "typeString = ''string''"
definition typeFloat :: string where "typeFloat = ''float64''"
definition typeInt :: string where "typeInt = ''int''"
definition typeDate :: string where "typeDate = ''core.TsTime''"

text \<open>
  The object \<^verbatim>\<open>genConstants\<close> with its keys as the configuration file spells them. The
  service reads \<^verbatim>\<open>genConstants.require\<close>; the object has the key \<^verbatim>\<open>qequire\<close> and no key
  \<^verbatim>\<open>require\<close>, so that read yields \<^verbatim>\<open>undefined\<close>.
\<close>

definition genConstants :: "(string \<times> jsval) list" where
  "genConstants =
     [(''UTF8'', JStr ''utf-8''), (''tplCrud'', JStr ''crud''), (''tplTree'', JStr ''tree''),
      (''queryLike'', JStr ''LIKE''), (''queryEq'', JStr ''=''), (''qequire'', JNum 1)]"

definition getProp :: "(string \<times> jsval) list \<Rightarrow> string \<Rightarrow> jsval" where
  "getProp obj k = (case map_of obj k of None \<Rightarrow> JUndefined | Some v \<Rightarrow> v)"

definition columnTypeStr :: "string list" where
  "columnTypeStr = [''char'', ''varchar'', ''nvarchar'', ''varchar2'']"

definition columnTypeText :: "string list" where
  "columnTypeText = [''tinytext'', ''text'', ''mediumtext'', ''longtext'']"

definition columnTypeTime :: "string list" where
  "columnTypeTime = [''datetime'', ''time'', ''date'', ''timestamp'']"

definition columnTypeNumber :: "string list" where
  "columnTypeNumber = [''tinyint'', ''smallint'', ''mediumint'', ''int'', ''integer'',
                       ''bit'', ''bigint'', ''float'', ''double'', ''decimal'']"

definition columnTimeName :: "string list" where
  "columnTimeName = [''create_time'', ''update_time'', ''delete_time'',
                     ''start_time'', ''end_time'']"

definition columnNameNotAdd :: "string list" where
  "columnNameNotAdd = [''id'', ''is_delete'', ''create_time'', ''update_time'', ''delete_time'']"

definition columnNameNotEdit :: "string list" where
  "columnNameNotEdit = [''is_delete'', ''create_time'', ''update_time'', ''delete_time'']"

definition columnNameNotList :: "string list" where
  "columnNameNotList = [''id'', ''intro'', ''content'', ''is_delete'', ''delete_time'']"

definition columnNameNotQuery :: "string list" where
  "columnNameNotQuery = [''is_delete'', ''create_time'', ''update_time'', ''delete_time'']"

definition htmlInput :: string where "htmlInput = ''input''"
definition htmlTextarea :: string where "htmlTextarea = ''textarea''"
definition htmlSelect :: string where "htmlSelect = ''select''"
definition htmlRadio :: string where "htmlRadio = ''radio''"
definition htmlDatetime :: string where "htmlDatetime = ''datetime''"
definition htmlImageUpload :: string where "htmlImageUpload = ''imageUpload''"
definition htmlFileUpload :: string where "htmlFileUpload = ''fileUpload''"
definition htmlEditor :: string where "htmlEditor = ''editor''"

section \<open>The column classifier (\<^verbatim>\<open>GenService.initColumn\<close>)\<close>

text \<open>
  A row of the catalog query \<^verbatim>\<open>getDbTableColumnsQueryByName\<close>. The query computes
  \<^verbatim>\<open>isRequired\<close>, \<^verbatim>\<open>isPk\<close> and \<^verbatim>\<open>isIncrement\<close> as the SQL string literals \<^verbatim>\<open>"1"\<close> and
  \<^verbatim>\<open>"0"\<close>; the fields are kept as \<open>jsval\<close> so that the strict comparisons of the service
  see what they are given.
\<close>

record db_column =
  dbColumnName :: string
  dbIsRequired :: jsval
  dbIsPk :: jsval
  dbSort :: jsval
  dbColumnComment :: string
  dbIsIncrement :: jsval
  dbColumnType :: string

text \<open>
  The column object built by \<^verbatim>\<open>initColumn\<close> and stored by the \<^verbatim>\<open>GenTableColumn\<close> model.
  Every property is a \<open>jsval\<close>; a property the code never assigned is \<open>JUndefined\<close>.
  \<open>colId\<close> is the property \<^verbatim>\<open>id\<close> and \<open>sort_col\<close> the property \<^verbatim>\<open>sort\<close>.
\<close>

record gen_table_column =
  colId :: jsval
  tableId :: jsval
  columnName :: jsval
  columnComment :: jsval
  columnType :: jsval
  columnLength :: jsval
  javaField :: jsval
  javaType :: jsval
  queryType :: jsval
  sort_col :: jsval
  isPk :: jsval
  isIncrement :: jsval
  isRequired :: jsval
  createTime :: jsval
  updateTime :: jsval
  htmlType :: jsval
  isInsert :: jsval
  isEdit :: jsval
  isList :: jsval
  isQuery :: jsval
  dictType :: jsval

definition getDbType :: "string \<Rightarrow> string" where
  "getDbType ct = (let index = indexOf ct (CHR ''('') in
                    if index < 0 then ct else substring ct 0 (nat index))"

definition getColumnLength :: "string \<Rightarrow> int" where
  "getColumnLength ct =
     (let index = indexOf ct (CHR ''('') in
      if index < 0 then 0
      else let endIndex = indexOfFrom ct (CHR '')'') (nat index) in
        if endIndex < 0 then 0
        else (case parseInt (substring ct (nat index + 1) (nat endIndex)) of
                None \<Rightarrow> 0 | Some n \<Rightarrow> n))"

text \<open>
  The blocks of \<^verbatim>\<open>initColumn\<close>, in the order of the source; each takes the column
  object built so far and returns it updated. \<open>require\<close> is what the service reads as
  \<^verbatim>\<open>genConstants.require\<close>. The scale test \<^verbatim>\<open>columnType.includes(',')\<close> is made on
  the local \<^verbatim>\<open>columnType\<close> (here \<open>colType\<close>), which holds the base type returned by \<open>getDbType\<close>.
\<close>

definition require :: jsval where
  "require = getProp genConstants ''require''"

definition setTypesByColumnType ::
  "string \<Rightarrow> int \<Rightarrow> string \<Rightarrow> gen_table_column \<Rightarrow> gen_table_column" where
  "setTypesByColumnType colType columnLen name col =
     (if contains (columnTypeStr @ columnTypeText) colType then
        (if columnLen \<ge> 500 \<or> contains columnTypeText colType
         then col\<lparr>htmlType := JStr htmlTextarea\<rparr>
         else col\<lparr>htmlType := JStr htmlInput\<rparr>)
      else if contains columnTypeTime colType then
        col\<lparr>javaType := JStr typeDate, htmlType := JStr htmlDatetime\<rparr>
      else if contains columnTimeName name then
        col\<lparr>javaType := JStr typeDate, htmlType := JStr htmlDatetime\<rparr>
      else if contains columnTypeNumber colType then
        (if CHR '','' \<in> set colType
         then col\<lparr>htmlType := JStr htmlInput, javaType := JStr typeFloat\<rparr>
         else col\<lparr>htmlType := JStr htmlInput, javaType := JStr typeInt\<rparr>)
      else col)"

definition clearRequiredByName :: "string \<Rightarrow> gen_table_column \<Rightarrow> gen_table_column" where
  "clearRequiredByName name col =
     (if contains columnNameNotEdit name then col\<lparr>isRequired := JNum 0\<rparr> else col)"

definition setInsertByName :: "string \<Rightarrow> gen_table_column \<Rightarrow> gen_table_column" where
  "setInsertByName name col =
     (if \<not> contains columnNameNotAdd name then col\<lparr>isInsert := require\<rparr> else col)"

definition setEditByName :: "string \<Rightarrow> gen_table_column \<Rightarrow> gen_table_column" where
  "setEditByName name col =
     (if \<not> contains columnNameNotEdit name
      then col\<lparr>isEdit := require, isRequired := require\<rparr> else col)"

definition setListByName :: "string \<Rightarrow> gen_table_column \<Rightarrow> gen_table_column" where
  "setListByName name col =
     (if \<not> contains columnNameNotList name \<and> isPk col = JNum 0
      then col\<lparr>isList := require\<rparr> else col)"

definition setQueryByName :: "string \<Rightarrow> gen_table_column \<Rightarrow> gen_table_column" where
  "setQueryByName name col =
     (if \<not> contains columnNameNotQuery name \<and> isPk col = JNum 0
      then col\<lparr>isQuery := require\<rparr> else col)"

definition setQueryTypeByName :: "string \<Rightarrow> gen_table_column \<Rightarrow> gen_table_column" where
  "setQueryTypeByName lowerColName col =
     (if endsWith lowerColName ''name'' \<or> contains [''title'', ''mobile''] lowerColName
      then col\<lparr>queryType := getProp genConstants ''queryLike''\<rparr> else col)"

definition setHtmlTypeByName :: "string \<Rightarrow> gen_table_column \<Rightarrow> gen_table_column" where
  "setHtmlTypeByName lowerColName col =
     (if endsWith lowerColName ''status''
         \<or> contains [''is_show'', ''is_disable''] lowerColName
      then col\<lparr>htmlType := JStr htmlRadio\<rparr>
      else if endsWith lowerColName ''type'' \<or> endsWith lowerColName ''sex''
      then col\<lparr>htmlType := JStr htmlSelect\<rparr>
      else if endsWith lowerColName ''image''
      then col\<lparr>htmlType := JStr htmlImageUpload\<rparr>
      else if endsWith lowerColName ''file''
      then col\<lparr>htmlType := JStr htmlFileUpload\<rparr>
      else if endsWith lowerColName ''content''
      then col\<lparr>htmlType := JStr htmlEditor\<rparr>
      else col)"

text \<open>\<open>clock\<close> holds the two readings of \<^verbatim>\<open>Math.floor(Date.now() / 1000)\<close>.\<close>

definition initColumn :: "int \<times> int \<Rightarrow> jsval \<Rightarrow> db_column \<Rightarrow> gen_table_column" where
  "initColumn clock tid column =
    (let colType = getDbType (dbColumnType column);
         columnLen = getColumnLength (dbColumnType column);
         name = dbColumnName column;
         col = \<lparr> colId = JUndefined, tableId = tid, columnName = JStr name,
                 columnComment = JStr (dbColumnComment column),
                 columnType = JStr colType, columnLength = JNum columnLen,
                 javaField = JStr name, javaType = JStr typeString,
                 queryType = getProp genConstants ''queryEq'', sort_col = dbSort column,
                 isPk = dbIsPk column, isIncrement = dbIsIncrement column,
                 isRequired = dbIsRequired column,
                 createTime = JNum (fst clock), updateTime = JNum (snd clock),
                 htmlType = JUndefined, isInsert = JUndefined, isEdit = JUndefined,
                 isList = JUndefined, isQuery = JUndefined, dictType = JUndefined \<rparr>;
         col = setTypesByColumnType colType columnLen name col;
         col = clearRequiredByName name col;
         col = setInsertByName name col;
         col = setEditByName name col;
         col = setListByName name col;
         col = setQueryByName name col;
         lowerColName = toLowerCase name;
         col = setQueryTypeByName lowerColName col;
         col = setHtmlTypeByName lowerColName col
     in col)"


section \<open>Table names (\<^verbatim>\<open>app/util/index.js\<close>, \<^verbatim>\<open>GenService.initTable\<close>)\<close>

text \<open>\<^verbatim>\<open>s.split(c)\<close> for a one-character separator; the result is never empty.\<close>

primrec splitOn :: "char \<Rightarrow> string \<Rightarrow> string list" where
  "splitOn c [] = [[]]"
| "splitOn c (x # xs) =
     (if x = c then [] # splitOn c xs
      else (x # hd (splitOn c xs)) # tl (splitOn c xs))"

text \<open>\<^verbatim>\<open>w.charAt(0).toUpperCase() + w.slice(1)\<close>; \<^verbatim>\<open>charAt(0)\<close> of the empty string is empty.\<close>

definition upperFirst :: "string \<Rightarrow> string" where
  "upperFirst w = toUpperCase (take 1 w) @ drop 1 w"

text \<open>
  \<^verbatim>\<open>toCamelCase\<close>: the loop starts at index 1, so the first word is left as it is.
\<close>

function toCamelCase_loop :: "nat \<Rightarrow> string list \<Rightarrow> string list" where
  "toCamelCase_loop i words =
     (if i < length words
      then toCamelCase_loop (i + 1) (words[i := upperFirst (words ! i)])
      else words)"
  by pat_completeness auto
termination
  by (relation "measure (\<lambda>(i, words). length words - i)") auto

definition toCamelCase :: "string \<Rightarrow> string" where
  "toCamelCase s = concat (toCamelCase_loop 1 (splitOn (CHR ''_'') s))"

datatype error =
    DbFailure
  | TypeError
  | TemplateFailure
  | TableNotExist
  | ImportFindTablesErr
  | ImportCreateTableErr error
  | ImportCreateColumnErr error
  | ImportTransactionErr
  | DelTableTransactionFailed
  | GenDataNotExist
  | OldDataAbnormal
  | SyncStructureMissing
  | SyncTableTransactionErr
  | RecordLost
  | SubTableRecordLost
  | GetSubTableInfoError error
  | GetFilePathsError error
  | GenZipError error
  | GenZipCodeError error
  | DownloadCodeError error

text \<open>
  \<^verbatim>\<open>toPascalCase\<close>: the loop starts at index 0 and reads \<^verbatim>\<open>words[i][0]\<close>, which is
  \<^verbatim>\<open>undefined\<close> for an empty word; calling \<^verbatim>\<open>toUpperCase\<close> on it is a TypeError.
\<close>

function toPascalCase_loop :: "nat \<Rightarrow> string list \<Rightarrow> error + string list" where
  "toPascalCase_loop i words =
     (if i < length words
      then (if words ! i = [] then Inl TypeError
            else toPascalCase_loop (i + 1)
                   (words[i := toUpperCase (take 1 (words ! i)) @ drop 1 (words ! i)]))
      else Inr words)"
  by pat_completeness auto
termination
  by (relation "measure (\<lambda>(i, words). length words - i)") auto

definition toPascalCase :: "string \<Rightarrow> error + string" where
  "toPascalCase str =
     (case toPascalCase_loop 0 (splitOn (CHR ''_'') str) of
        Inl e \<Rightarrow> Inl e | Inr words \<Rightarrow> Inr (concat words))"

definition toClassName :: "string \<Rightarrow> string" where
  "toClassName name =
     (let tablePrefix = dbTablePrefix;
          name = (if isRemoveTablePrefix \<and> tablePrefix \<noteq> [] \<and> startsWith name tablePrefix
                  then drop (length tablePrefix) name else name)
      in toCamelCase name)"

definition toModuleName :: "string \<Rightarrow> string" where
  "toModuleName name =
     (let names = splitOn (CHR ''_'') name in names ! (length names - 1))"

text \<open>
  \<^verbatim>\<open>s.replace(pattern, replacement)\<close> with a string pattern: the first occurrence is
  replaced. In the replacement \<^verbatim>\<open>$$\<close> stands for a dollar sign, \<^verbatim>\<open>$&\<close> for the matched
  text, \<^verbatim>\<open>$`\<close> for the text before the match and \<^verbatim>\<open>$'\<close> for the text after it.
\<close>

fun findFirst :: "string \<Rightarrow> string \<Rightarrow> nat option" where
  "findFirst pat [] = (if pat = [] then Some 0 else None)"
| "findFirst pat (c # cs) =
     (if take (length pat) (c # cs) = pat then Some 0
      else map_option Suc (findFirst pat cs))"

fun getSubstitution :: "string \<Rightarrow> string \<Rightarrow> string \<Rightarrow> string \<Rightarrow> string" where
  "getSubstitution m b a (c # d # r) =
     (if c = CHR ''$'' \<and> d = CHR ''$'' then CHR ''$'' # getSubstitution m b a r
      else if c = CHR ''$'' \<and> d = CHR ''&'' then m @ getSubstitution m b a r
      else if c = CHR ''$'' \<and> d = CHR 0x60 then b @ getSubstitution m b a r
      else if c = CHR ''$'' \<and> d = CHR 0x27 then a @ getSubstitution m b a r
      else c # getSubstitution m b a (d # r))"
| "getSubstitution m b a r = r"

definition replace :: "string \<Rightarrow> string \<Rightarrow> string \<Rightarrow> string" where
  "replace s pat rep =
     (case findFirst pat s of
        None \<Rightarrow> s
      | Some i \<Rightarrow>
          take i s
          @ getSubstitution pat (take i s) (drop (i + length pat) s) rep
          @ drop (i + length pat) s)"

text \<open>A row of the catalog query over \<^verbatim>\<open>information_schema.tables\<close>.\<close>

record db_table =
  dbTableName :: string
  dbTableComment :: string
  dbCreateTime :: jsval
  dbUpdateTime :: jsval

text \<open>
  The table object built by \<^verbatim>\<open>initTable\<close> and stored by the \<^verbatim>\<open>GenTable\<close> model.
  \<open>genTableId\<close> is the property \<^verbatim>\<open>id\<close>; it and the last three properties are not set
  by \<^verbatim>\<open>initTable\<close>.
\<close>

record gen_table =
  genTableId :: jsval
  tableName :: string
  tableComment :: string
  authorName :: string
  entityName :: string
  moduleName :: string
  functionName :: string
  tableCreateTime :: jsval
  tableUpdateTime :: jsval
  genTpl :: jsval
  subTableName :: jsval
  subTableFk :: jsval

text \<open>
  The character removed from the table comment is U+8868 (the word for table), the bytes
  E8 A1 A8 in UTF-8.
\<close>

definition tableWord :: string where
  "tableWord = [CHR 0xE8, CHR 0xA1, CHR 0xA8]"

definition initTable :: "int \<times> int \<Rightarrow> db_table \<Rightarrow> gen_table" where
  "initTable clock table =
     \<lparr> genTableId = JUndefined,
       tableName = dbTableName table,
       tableComment = dbTableComment table,
       authorName = [],
       entityName = toClassName (dbTableName table),
       moduleName = toModuleName (dbTableName table),
       functionName = replace (dbTableComment table) tableWord [],
       tableCreateTime = JNum (fst clock),
       tableUpdateTime = JNum (snd clock),
       genTpl = JUndefined, subTableName = JUndefined, subTableFk = JUndefined \<rparr>"

section \<open>The persistence layer\<close>

text \<open>
  The two metadata tables, with their auto-increment counters. A call to the database
  can be rejected (a constraint, a lost connection); which calls are rejected is not
  decided by the service, so the state carries a list of booleans, one for each call
  still to come (\<open>True\<close>: this call is rejected); calls after the end of the list
  succeed. The comparisons of a \<^verbatim>\<open>where\<close> clause compare the values as they are given.
\<close>

record store =
  genTables :: "gen_table list"
  genTableColumns :: "gen_table_column list"
  nextTableId :: int
  nextColumnId :: int

type_synonym dbstate = "store \<times> bool list"

definition rejects :: "bool list \<Rightarrow> bool" where
  "rejects fs = (case fs of [] \<Rightarrow> False | f # _ \<Rightarrow> f)"

definition GenTable_create :: "gen_table \<Rightarrow> dbstate \<Rightarrow> (error + gen_table) \<times> dbstate" where
  "GenTable_create vals st =
     (case st of (s, fs) \<Rightarrow>
        if rejects fs then (Inl DbFailure, (s, tl fs))
        else (let row = vals\<lparr>genTableId := JNum (nextTableId s)\<rparr>
              in (Inr row, (s\<lparr>genTables := genTables s @ [row],
                              nextTableId := nextTableId s + 1\<rparr>, tl fs))))"

definition GenTableColumn_create ::
  "gen_table_column \<Rightarrow> dbstate \<Rightarrow> (error + gen_table_column) \<times> dbstate" where
  "GenTableColumn_create vals st =
     (case st of (s, fs) \<Rightarrow>
        if rejects fs then (Inl DbFailure, (s, tl fs))
        else (let row = vals\<lparr>colId := JNum (nextColumnId s)\<rparr>
              in (Inr row, (s\<lparr>genTableColumns := genTableColumns s @ [row],
                              nextColumnId := nextColumnId s + 1\<rparr>, tl fs))))"

definition GenTable_destroy :: "(gen_table \<Rightarrow> bool) \<Rightarrow> dbstate \<Rightarrow> (error + unit) \<times> dbstate" where
  "GenTable_destroy whr st =
     (case st of (s, fs) \<Rightarrow>
        if rejects fs then (Inl DbFailure, (s, tl fs))
        else (Inr (), (s\<lparr>genTables := filter (\<lambda>r. \<not> whr r) (genTables s)\<rparr>, tl fs)))"

definition GenTableColumn_destroy ::
  "(gen_table_column \<Rightarrow> bool) \<Rightarrow> dbstate \<Rightarrow> (error + unit) \<times> dbstate" where
  "GenTableColumn_destroy whr st =
     (case st of (s, fs) \<Rightarrow>
        if rejects fs then (Inl DbFailure, (s, tl fs))
        else (Inr (), (s\<lparr>genTableColumns := filter (\<lambda>c. \<not> whr c) (genTableColumns s)\<rparr>,
                       tl fs)))"

definition GenTable_findOne ::
  "(gen_table \<Rightarrow> bool) \<Rightarrow> dbstate \<Rightarrow> (error + gen_table option) \<times> dbstate" where
  "GenTable_findOne whr st =
     (case st of (s, fs) \<Rightarrow>
        if rejects fs then (Inl DbFailure, (s, tl fs))
        else (Inr (find whr (genTables s)), (s, tl fs)))"

text \<open>
  The managed transaction of the ORM: the callback runs, and when it throws, every row
  written under the transaction is rolled back and the error is thrown on; the counters
  are not rolled back. Each write of the callbacks below passes the transaction.
\<close>

definition transaction ::
  "(dbstate \<Rightarrow> (error + 'a) \<times> dbstate) \<Rightarrow> dbstate \<Rightarrow> (error + 'a) \<times> dbstate" where
  "transaction body st =
     (case body st of
        (Inl err, (s', fs')) \<Rightarrow>
          (Inl err, ((fst st)\<lparr>nextTableId := nextTableId s',
                               nextColumnId := nextColumnId s'\<rparr>, fs'))
      | (Inr v, st') \<Rightarrow> (Inr v, st'))"

text \<open>
  What the service reads from outside: the results of the two catalog queries
  (\<open>None\<close> when the query is rejected) and the clock.
\<close>

record env =
  tablesByNames :: "string list \<Rightarrow> db_table list option"
  columnsByName :: "string \<Rightarrow> db_column list option"
  clock :: "int \<times> int"

section \<open>Import and delete (\<^verbatim>\<open>importTable\<close>, \<^verbatim>\<open>delTable\<close>)\<close>

fun importColumns ::
  "env \<Rightarrow> jsval \<Rightarrow> db_column list \<Rightarrow> dbstate \<Rightarrow> (error + unit) \<times> dbstate" where
  "importColumns e tid [] st = (Inr (), st)"
| "importColumns e tid (c # cs) st =
     (case GenTableColumn_create (initColumn (clock e) tid c) st of
        (Inl err, st') \<Rightarrow> (Inl (ImportCreateColumnErr err), st')
      | (Inr _, st') \<Rightarrow> importColumns e tid cs st')"

fun importTables :: "env \<Rightarrow> db_table list \<Rightarrow> dbstate \<Rightarrow> (error + unit) \<times> dbstate" where
  "importTables e [] st = (Inr (), st)"
| "importTables e (t # ts) st =
     (case GenTable_create (initTable (clock e) t) st of
        (Inl err, st') \<Rightarrow> (Inl (ImportCreateTableErr err), st')
      | (Inr result, st') \<Rightarrow>
          (case columnsByName e (dbTableName t) of
             None \<Rightarrow> (Inl DbFailure, st')
           | Some columns \<Rightarrow>
               (case importColumns e (genTableId result) columns st' of
                  (Inl err, st'') \<Rightarrow> (Inl err, st'')
                | (Inr _, st'') \<Rightarrow> importTables e ts st'')))"

definition importTable :: "env \<Rightarrow> string list \<Rightarrow> dbstate \<Rightarrow> (error + unit) \<times> dbstate" where
  "importTable e tableNames st =
     (case tablesByNames e tableNames of
        None \<Rightarrow> (Inl ImportFindTablesErr, st)
      | Some dbTbs \<Rightarrow>
          if length dbTbs = 0 then (Inl TableNotExist, st)
          else (case transaction (importTables e dbTbs) st of
                  (Inl err, st') \<Rightarrow> (Inl ImportTransactionErr, st')
                | (Inr _, st') \<Rightarrow> (Inr (), st')))"

definition delTable :: "jsval list \<Rightarrow> dbstate \<Rightarrow> (error + unit) \<times> dbstate" where
  "delTable ids st =
     (case transaction
             (\<lambda>t. case GenTable_destroy (\<lambda>r. genTableId r \<in> set ids) t of
                     (Inl err, t') \<Rightarrow> (Inl err, t')
                   | (Inr _, t') \<Rightarrow> GenTableColumn_destroy (\<lambda>c. tableId c \<in> set ids) t')
             st of
        (Inl err, st') \<Rightarrow> (Inl DelTableTransactionFailed, st')
      | (Inr _, st') \<Rightarrow> (Inr (), st'))"

text \<open>
  The rows a complete import stores, written from the description of the import: for
  each table found, its table record, then one classified column record for each of its
  live columns, the column records carrying the identifier of their table record.
\<close>

fun completeColumns :: "env \<Rightarrow> jsval \<Rightarrow> db_column list \<Rightarrow> store \<Rightarrow> store" where
  "completeColumns e tid [] s = s"
| "completeColumns e tid (c # cs) s =
     completeColumns e tid cs
       (s\<lparr>genTableColumns :=
             genTableColumns s @ [(initColumn (clock e) tid c)\<lparr>colId := JNum (nextColumnId s)\<rparr>],
          nextColumnId := nextColumnId s + 1\<rparr>)"

fun completeImport :: "env \<Rightarrow> db_table list \<Rightarrow> store \<Rightarrow> store" where
  "completeImport e [] s = s"
| "completeImport e (t # ts) s =
     completeImport e ts
       (completeColumns e (JNum (nextTableId s))
          (case columnsByName e (dbTableName t) of None \<Rightarrow> [] | Some columns \<Rightarrow> columns)
          (s\<lparr>genTables :=
                genTables s @ [(initTable (clock e) t)\<lparr>genTableId := JNum (nextTableId s)\<rparr>],
             nextTableId := nextTableId s + 1\<rparr>))"

text \<open>The names the description of the import gives to a table.\<close>

definition spec_stripPrefix :: "string \<Rightarrow> string" where
  "spec_stripPrefix T = (if startsWith T ''la_'' then drop 3 T else T)"

definition spec_camelCase :: "string \<Rightarrow> string" where
  "spec_camelCase s =
     hd (splitOn (CHR ''_'') s) @ concat (map upperFirst (tl (splitOn (CHR ''_'') s)))"

definition spec_lastSegment :: "string \<Rightarrow> string" where
  "spec_lastSegment T = last (splitOn (CHR ''_'') T)"

section \<open>Synchronisation of a stored column (\<^verbatim>\<open>syncTable\<close>)\<close>

text \<open>
  In the loop of \<^verbatim>\<open>syncTable\<close> the column object is
  \<^verbatim>\<open>const col = this.initColumn(id, columns[i])\<close>, without \<^verbatim>\<open>await\<close>: \<^verbatim>\<open>initColumn\<close> is an
  \<^verbatim>\<open>async\<close> method, so \<open>col\<close> is the promise and not the classified column. None of the
  properties of the column can be read from the promise: each reads as \<^verbatim>\<open>undefined\<close>.
\<close>

definition unawaited :: "gen_table_column \<Rightarrow> gen_table_column" where
  "unawaited settled =
     \<lparr> colId = JUndefined, tableId = JUndefined, columnName = JUndefined,
       columnComment = JUndefined, columnType = JUndefined, columnLength = JUndefined,
       javaField = JUndefined, javaType = JUndefined, queryType = JUndefined,
       sort_col = JUndefined, isPk = JUndefined, isIncrement = JUndefined,
       isRequired = JUndefined, createTime = JUndefined, updateTime = JUndefined,
       htmlType = JUndefined, isInsert = JUndefined, isEdit = JUndefined,
       isList = JUndefined, isQuery = JUndefined, dictType = JUndefined \<rparr>"

text \<open>
  The statements of the matched branch, from \<^verbatim>\<open>col.id = prevCol.id\<close> up to the call of
  \<^verbatim>\<open>GenTableColumn.update\<close>: the result is the object passed to the update.
\<close>

definition keepPrevious :: "gen_table_column \<Rightarrow> gen_table_column \<Rightarrow> gen_table_column" where
  "keepPrevious col0 prevCol =
     (let col = col0\<lparr>colId := colId prevCol\<rparr>;
          col = (if isList col = JNum 0
                 then col\<lparr>dictType := dictType prevCol, queryType := queryType prevCol\<rparr>
                 else col);
          col = (if (isRequired prevCol = JNum 1 \<and> isPk prevCol = JNum 0
                       \<and> isInsert prevCol = JNum 1)
                    \<or> isEdit prevCol = JNum 1
                 then col\<lparr>htmlType := htmlType prevCol, isRequired := isRequired prevCol\<rparr>
                 else col)
      in col)"

definition syncMatched ::
  "int \<times> int \<Rightarrow> jsval \<Rightarrow> db_column \<Rightarrow> gen_table_column \<Rightarrow> gen_table_column" where
  "syncMatched clk tid column prevCol =
     keepPrevious (unawaited (initColumn clk tid column)) prevCol"

section \<open>The catalog queries (\<^verbatim>\<open>getDbTablesQuery\<close>, \<^verbatim>\<open>getDbTablesQueryByNames\<close>)\<close>

text \<open>
  What the service hands to \<^verbatim>\<open>sequelize.query\<close>: the statement text and the named
  replacements bound to it. The text of a template literal is the literal with every
  \<^verbatim>\<open>${...}\<close> replaced by the string conversion of the value.
\<close>

record sql_request =
  sqlText :: string
  replacements :: "(string \<times> string list) list"

definition nl :: string where "nl = [CHR 0x0A]"
definition sq :: string where "sq = [CHR 0x27]"
definition dq :: string where "dq = [CHR 0x22]"

fun showNat :: "nat \<Rightarrow> string" where
  "showNat n = (if n < 10 then [''0123456789'' ! n]
                else showNat (n div 10) @ [''0123456789'' ! (n mod 10)])"

definition showInt :: "int \<Rightarrow> string" where
  "showInt i = (if i < 0 then ''-'' @ showNat (nat (- i)) else showNat (nat i))"

definition toStringJs :: "jsval \<Rightarrow> string" where
  "toStringJs v = (case v of JUndefined \<Rightarrow> ''undefined'' | JNull \<Rightarrow> ''null''
                    | JNum n \<Rightarrow> showInt n | JStr s \<Rightarrow> s)"

definition whereStr :: "jsval \<Rightarrow> jsval \<Rightarrow> string" where
  "whereStr tName tComment =
     (if truthy tName
      then ''AND lower(table_name) like lower('' @ dq @ ''%'' @ toStringJs tName @ ''%'' @ dq @ '')''
      else [])
     @ (if truthy tComment
        then ''AND lower(table_comment) like lower('' @ dq @ ''%'' @ toStringJs tComment @ ''%''
             @ dq @ '')''
        else [])"

definition catalogFilter :: string where
  "catalogFilter =
     ''        FROM information_schema.tables'' @ nl
     @ ''        WHERE table_schema = DATABASE()'' @ nl
     @ ''        AND table_name NOT LIKE '' @ sq @ ''qrtz_%'' @ sq @ nl
     @ ''        AND table_name NOT LIKE '' @ sq @ ''gen_%'' @ sq @ nl
     @ ''        AND table_name NOT IN (SELECT table_name FROM la_gen_table)'' @ nl"

definition countSql :: "string \<Rightarrow> string" where
  "countSql w =
     nl @ ''        SELECT COUNT(*) AS total'' @ nl
     @ catalogFilter
     @ ''        '' @ w @ nl
     @ ''      ''"

definition dataSql :: "string \<Rightarrow> int \<Rightarrow> int \<Rightarrow> string" where
  "dataSql w limit offset =
     nl @ ''        SELECT table_name AS tableName, table_comment AS tableComment, ''
     @ ''DATE_FORMAT(create_time, '' @ sq @ ''%Y-%m-%d %H:%i:%s'' @ sq
     @ '') AS createTime, update_time AS updateTime'' @ nl
     @ catalogFilter
     @ ''        '' @ w @ nl
     @ ''        LIMIT '' @ showInt limit @ '' OFFSET '' @ showInt offset"

definition getDbTablesQuery :: "jsval \<Rightarrow> jsval \<Rightarrow> int \<Rightarrow> int \<Rightarrow> sql_request list" where
  "getDbTablesQuery tName tComment limit offset =
     [\<lparr> sqlText = countSql (whereStr tName tComment), replacements = [] \<rparr>,
      \<lparr> sqlText = dataSql (whereStr tName tComment) limit offset, replacements = [] \<rparr>]"

definition getDbTablesQueryByNames :: "string list \<Rightarrow> sql_request" where
  "getDbTablesQueryByNames tableNames =
     \<lparr> sqlText =
         nl @ ''        SELECT table_name AS tableName, table_comment AS tableComment, ''
         @ ''create_time AS createTime, update_time AS updateTime'' @ nl
         @ ''        FROM information_schema.tables'' @ nl
         @ ''        WHERE table_schema = DATABASE()'' @ nl
         @ ''          AND table_name NOT LIKE '' @ sq @ ''qrtz_%'' @ sq @ nl
         @ ''          AND table_name NOT LIKE '' @ sq @ ''gen_%'' @ sq @ nl
         @ ''          AND table_name IN (:tableNames)'' @ nl
         @ ''      '',
       replacements = [(''tableNames'', tableNames)] \<rparr>"

text \<open>A filter value that closes the string literal and the call it is written into.\<close>

definition injection :: string where
  "injection = dq @ '') OR ('' @ dq @ dq @ '' = '' @ dq"

section \<open>Rendering and packaging (\<^verbatim>\<open>renderCodeByTable\<close>, \<^verbatim>\<open>previewCode\<close>, \<^verbatim>\<open>downloadCode\<close>)\<close>

text \<open>
  The template module \<^verbatim>\<open>util/templateUtil\<close> is not part of the sources; its three functions
  are parameters. \<open>'v\<close> is the type of the variable context.
\<close>

record 'v templates =
  prepareVars ::
    "gen_table \<Rightarrow> gen_table_column list \<Rightarrow> gen_table_column \<Rightarrow> db_column list \<Rightarrow> error + 'v"
  getTemplatePaths :: "jsval \<Rightarrow> error + string list"
  render :: "string \<Rightarrow> 'v \<Rightarrow> error + string"

text \<open>
  A JavaScript object with string keys, in insertion order: assigning to a key that is
  present replaces its value in place.
\<close>

fun objSet :: "string \<Rightarrow> 'a \<Rightarrow> (string \<times> 'a) list \<Rightarrow> (string \<times> 'a) list" where
  "objSet k v [] = [(k, v)]"
| "objSet k v ((k', v') # kvs) =
     (if k = k' then (k, v) # kvs else (k', v') # objSet k v kvs)"

definition numKey :: "jsval \<Rightarrow> int" where
  "numKey v = (case v of JNum n \<Rightarrow> n | _ \<Rightarrow> 0)"

text \<open>\<^verbatim>\<open>findAll({ where: { tableId }, order: [['sort', 'ASC']] })\<close>.\<close>

definition GenTableColumn_findAll ::
  "jsval \<Rightarrow> dbstate \<Rightarrow> (error + gen_table_column list) \<times> dbstate" where
  "GenTableColumn_findAll tid st =
     (case st of (s, fs) \<Rightarrow>
        if rejects fs then (Inl DbFailure, (s, tl fs))
        else (Inr (sort_key (\<lambda>c. numKey (sort_col c))
                     (filter (\<lambda>c. tableId c = tid) (genTableColumns s))),
              (s, tl fs)))"

text \<open>\<^verbatim>\<open>findOne({ where: { tableName }, order: [['id', 'DESC']], limit: 1 })\<close>.\<close>

definition GenTable_findLatest ::
  "string \<Rightarrow> dbstate \<Rightarrow> (error + gen_table option) \<times> dbstate" where
  "GenTable_findLatest name st =
     (case st of (s, fs) \<Rightarrow>
        if rejects fs then (Inl DbFailure, (s, tl fs))
        else (Inr (case rev (sort_key (\<lambda>r. numKey (genTableId r))
                               (filter (\<lambda>r. tableName r = name) (genTables s))) of
                     [] \<Rightarrow> None | r # _ \<Rightarrow> Some r),
              (s, tl fs)))"

definition getTablePriCol :: "db_column list \<Rightarrow> db_column option" where
  "getTablePriCol columns = find (\<lambda>col. dbIsPk col = JNum 1) columns"

text \<open>
  \<^verbatim>\<open>getSubTableInfo\<close> returns \<^verbatim>\<open>undefined\<close> (here \<open>None\<close>) when the table has no name or no
  \<^verbatim>\<open>subTableFk\<close>. Otherwise every failure, the TypeError of \<^verbatim>\<open>initColumn\<close> on a missing
  primary-key column included, is caught and thrown again wrapped.
\<close>

definition getSubTableInfo ::
  "env \<Rightarrow> gen_table \<Rightarrow> dbstate
   \<Rightarrow> (error + (gen_table_column \<times> db_column list) option) \<times> dbstate" where
  "getSubTableInfo e genTable st =
     (if tableName genTable = [] \<or> \<not> truthy (subTableFk genTable) then (Inr None, st)
      else (case GenTable_findOne (\<lambda>r. tableName r = tableName genTable) st of
              (Inl err, st') \<Rightarrow> (Inl (GetSubTableInfoError err), st')
            | (Inr None, st') \<Rightarrow> (Inl (GetSubTableInfoError SubTableRecordLost), st')
            | (Inr (Some table), st') \<Rightarrow>
                (case columnsByName e (tableName genTable) of
                   None \<Rightarrow> (Inl (GetSubTableInfoError DbFailure), st')
                 | Some cols \<Rightarrow>
                     (case getTablePriCol cols of
                        None \<Rightarrow> (Inl (GetSubTableInfoError TypeError), st')
                      | Some pk \<Rightarrow>
                          (Inr (Some (initColumn (clock e) (genTableId table) pk, cols)),
                           st')))))"

fun renderAll ::
  "'v templates \<Rightarrow> 'v \<Rightarrow> string list \<Rightarrow> (string \<times> string) list
   \<Rightarrow> error + (string \<times> string) list" where
  "renderAll T vars [] res = Inr res"
| "renderAll T vars (tplPath # ps) res =
     (case render T tplPath vars of
        Inl err \<Rightarrow> Inl err
      | Inr code \<Rightarrow> renderAll T vars ps (objSet tplPath code res))"

text \<open>
  \<^verbatim>\<open>renderCodeByTable\<close> reads \<^verbatim>\<open>data.pkCol\<close> on the result of \<^verbatim>\<open>getSubTableInfo\<close>
  without a test: on \<^verbatim>\<open>undefined\<close> that is a TypeError.
\<close>

definition renderCodeByTable ::
  "env \<Rightarrow> 'v templates \<Rightarrow> gen_table \<Rightarrow> dbstate
   \<Rightarrow> (error + (string \<times> string) list) \<times> dbstate" where
  "renderCodeByTable e T genTable st =
     (case GenTableColumn_findAll (genTableId genTable) st of
        (Inl err, st') \<Rightarrow> (Inl err, st')
      | (Inr columns, st') \<Rightarrow>
          (case getSubTableInfo e genTable st' of
             (Inl err, st'') \<Rightarrow> (Inl err, st'')
           | (Inr None, st'') \<Rightarrow> (Inl TypeError, st'')
           | (Inr (Some (pkCol, cols)), st'') \<Rightarrow>
               (case prepareVars T genTable columns pkCol cols of
                  Inl err \<Rightarrow> (Inl err, st'')
                | Inr vars \<Rightarrow>
                    (case getTemplatePaths T (genTpl genTable) of
                       Inl err \<Rightarrow> (Inl err, st'')
                     | Inr paths \<Rightarrow>
                         (case renderAll T vars paths [] of
                            Inl err \<Rightarrow> (Inl err, st'')
                          | Inr res \<Rightarrow> (Inr res, st''))))))"

definition previewCode ::
  "env \<Rightarrow> 'v templates \<Rightarrow> jsval \<Rightarrow> dbstate \<Rightarrow> (error + (string \<times> string) list) \<times> dbstate" where
  "previewCode e T ident st =
     (case GenTable_findOne (\<lambda>r. genTableId r = ident) st of
        (Inl err, st') \<Rightarrow> (Inl err, st')
      | (Inr None, st') \<Rightarrow> (Inl RecordLost, st')
      | (Inr (Some genTable), st') \<Rightarrow>
          (case renderCodeByTable e T genTable st' of
             (Inl err, st'') \<Rightarrow> (Inl err, st'')
           | (Inr tplCodeMap, st'') \<Rightarrow>
               (Inr (foldl (\<lambda>res (tplPath, code). objSet (replace tplPath ''.tpl'' []) code res)
                       [] tplCodeMap),
                st'')))"

definition fmtMap :: "(string \<times> string) list" where
  "fmtMap =
     [(''nodecode/model.js.tpl'', ''nodecode/%s/model.js''),
      (''nodecode/controller.js.tpl'', ''nodecode/%s/controller.js''),
      (''nodecode/service.js.tpl'', ''nodecode/%s/service.js''),
      (''nodecode/route.js.tpl'', ''nodecode/%s/route.js''),
      (''vue/api.ts.tpl'', ''vue/%s/api.ts''),
      (''vue/edit.vue.tpl'', ''vue/%s/edit.vue''),
      (''vue/index.vue.tpl'', ''vue/%s/index.vue''),
      (''vue/index-tree.vue.tpl'', ''vue/%s/index-tree.vue'')]"

text \<open>A template path that is not a key of \<open>fmtMap\<close> makes \<^verbatim>\<open>fmtMap[tplPath].replace\<close> a TypeError.\<close>

fun getFilePaths_loop ::
  "(string \<times> string) list \<Rightarrow> string \<Rightarrow> (string \<times> string) list
   \<Rightarrow> error + (string \<times> string) list" where
  "getFilePaths_loop [] modName filePath = Inr filePath"
| "getFilePaths_loop ((tplPath, code) # rest) modName filePath =
     (case map_of fmtMap tplPath of
        None \<Rightarrow> Inl (GetFilePathsError TypeError)
      | Some fmt \<Rightarrow>
          getFilePaths_loop rest modName (objSet (replace fmt ''%s'' modName) code filePath))"

definition getFilePaths ::
  "(string \<times> string) list \<Rightarrow> string \<Rightarrow> error + (string \<times> string) list" where
  "getFilePaths tplCodeMap modName = getFilePaths_loop tplCodeMap modName []"

text \<open>
  The file system maps a path to the entries (name, content) of the archive stored
  there. \<^verbatim>\<open>genZip\<close> opens \<^verbatim>\<open>fs.createWriteStream(zipPath)\<close> and a new archiver on every
  call: the file is truncated and holds the entries of this call only.
\<close>

type_synonym filesystem = "string \<Rightarrow> (string \<times> string) list option"

definition genZip ::
  "string \<Rightarrow> (string \<times> string) list \<Rightarrow> string \<Rightarrow> filesystem \<Rightarrow> (error + unit) \<times> filesystem" where
  "genZip zipPath tplCodeMap modName files =
     (case getFilePaths tplCodeMap modName of
        Inl err \<Rightarrow> (Inl (GenZipError err), files)
      | Inr filePaths \<Rightarrow> (Inr (), files(zipPath \<mapsto> filePaths)))"

definition genZipCode ::
  "env \<Rightarrow> 'v templates \<Rightarrow> string \<Rightarrow> string \<Rightarrow> dbstate \<times> filesystem
   \<Rightarrow> (error + unit) \<times> dbstate \<times> filesystem" where
  "genZipCode e T zipPath name w =
     (case w of (st, files) \<Rightarrow>
        (case GenTable_findLatest name st of
           (Inl err, st') \<Rightarrow> (Inl (GenZipCodeError err), (st', files))
         | (Inr None, st') \<Rightarrow> (Inl (GenZipCodeError RecordLost), (st', files))
         | (Inr (Some genTable), st') \<Rightarrow>
             (case renderCodeByTable e T genTable st' of
                (Inl err, st'') \<Rightarrow> (Inl (GenZipCodeError err), (st'', files))
              | (Inr tplCodeMap, st'') \<Rightarrow>
                  (case genZip zipPath tplCodeMap (moduleName genTable) files of
                     (Inl err, files') \<Rightarrow> (Inl (GenZipCodeError err), (st'', files'))
                   | (Inr _, files') \<Rightarrow> (Inr (), (st'', files'))))))"

fun downloadCode_loop ::
  "env \<Rightarrow> 'v templates \<Rightarrow> string \<Rightarrow> string list \<Rightarrow> dbstate \<times> filesystem
   \<Rightarrow> (error + unit) \<times> dbstate \<times> filesystem" where
  "downloadCode_loop e T zipPath [] w = (Inr (), w)"
| "downloadCode_loop e T zipPath (name # names) w =
     (case genZipCode e T zipPath name w of
        (Inl err, w') \<Rightarrow> (Inl err, w')
      | (Inr _, w') \<Rightarrow> downloadCode_loop e T zipPath names w')"

definition downloadCode ::
  "env \<Rightarrow> 'v templates \<Rightarrow> string \<Rightarrow> string list \<Rightarrow> dbstate \<times> filesystem
   \<Rightarrow> (error + string) \<times> dbstate \<times> filesystem" where
  "downloadCode e T zipPath tableNames w =
     (case downloadCode_loop e T zipPath tableNames w of
        (Inl err, w') \<Rightarrow> (Inl (DownloadCodeError err), w')
      | (Inr _, w') \<Rightarrow> (Inr zipPath, w'))"

section \<open>The whole synchronisation (\<^verbatim>\<open>syncTable\<close>)\<close>

text \<open>
  \<^verbatim>\<open>GenTableColumn.update(values, { where })\<close> writes, into every row the \<^verbatim>\<open>where\<close> clause
  selects, the properties that \<open>values\<close> has; a property that \<open>values\<close> does not have
  (one that reads \<^verbatim>\<open>undefined\<close>) leaves the column of the row as it is.
\<close>

definition given :: "jsval \<Rightarrow> jsval \<Rightarrow> jsval" where
  "given v old = (if v = JUndefined then old else v)"

definition assignGiven :: "gen_table_column \<Rightarrow> gen_table_column \<Rightarrow> gen_table_column" where
  "assignGiven vals row =
     \<lparr> colId = given (colId vals) (colId row),
       tableId = given (tableId vals) (tableId row),
       columnName = given (columnName vals) (columnName row),
       columnComment = given (columnComment vals) (columnComment row),
       columnType = given (columnType vals) (columnType row),
       columnLength = given (columnLength vals) (columnLength row),
       javaField = given (javaField vals) (javaField row),
       javaType = given (javaType vals) (javaType row),
       queryType = given (queryType vals) (queryType row),
       sort_col = given (sort_col vals) (sort_col row),
       isPk = given (isPk vals) (isPk row),
       isIncrement = given (isIncrement vals) (isIncrement row),
       isRequired = given (isRequired vals) (isRequired row),
       createTime = given (createTime vals) (createTime row),
       updateTime = given (updateTime vals) (updateTime row),
       htmlType = given (htmlType vals) (htmlType row),
       isInsert = given (isInsert vals) (isInsert row),
       isEdit = given (isEdit vals) (isEdit row),
       isList = given (isList vals) (isList row),
       isQuery = given (isQuery vals) (isQuery row),
       dictType = given (dictType vals) (dictType row) \<rparr>"

definition GenTableColumn_update ::
  "gen_table_column \<Rightarrow> (gen_table_column \<Rightarrow> bool) \<Rightarrow> dbstate \<Rightarrow> (error + unit) \<times> dbstate" where
  "GenTableColumn_update vals whr st =
     (case st of (s, fs) \<Rightarrow>
        if rejects fs then (Inl DbFailure, (s, tl fs))
        else (Inr (), (s\<lparr>genTableColumns :=
                            map (\<lambda>r. if whr r then assignGiven vals r else r)
                              (genTableColumns s)\<rparr>,
                       tl fs)))"

text \<open>
  \<^verbatim>\<open>prevColMap\<close>: the stored columns of the table keyed by their name, a later column
  replacing an earlier one of the same name.
\<close>

definition buildPrevColMap ::
  "gen_table_column list \<Rightarrow> (string \<times> gen_table_column) list" where
  "buildPrevColMap genTableCols =
     foldl (\<lambda>m c. objSet (toStringJs (columnName c)) c m) [] genTableCols"

text \<open>
  The loop over the live columns. For a live column that is stored, the object of
  \<open>syncMatched\<close> is passed to the update of the row with the stored identifier. For a
  live column that is not stored the code calls \<^verbatim>\<open>col.save\<close>; \<open>col\<close> is the promise, which
  has no such method: a TypeError.
\<close>

fun syncColumns ::
  "int \<times> int \<Rightarrow> jsval \<Rightarrow> (string \<times> gen_table_column) list \<Rightarrow> db_column list \<Rightarrow> dbstate
   \<Rightarrow> (error + unit) \<times> dbstate" where
  "syncColumns clk ident prevColMap [] st = (Inr (), st)"
| "syncColumns clk ident prevColMap (c # cs) st =
     (case map_of prevColMap (dbColumnName c) of
        Some prevCol \<Rightarrow>
          (case GenTableColumn_update (syncMatched clk ident c prevCol)
                  (\<lambda>r. colId r = colId prevCol) st of
             (Inl err, st') \<Rightarrow> (Inl err, st')
           | (Inr _, st') \<Rightarrow> syncColumns clk ident prevColMap cs st')
      | None \<Rightarrow> (Inl TypeError, st))"

definition delColIds :: "(string \<times> gen_table_column) list \<Rightarrow> db_column list \<Rightarrow> jsval list" where
  "delColIds prevColMap columns =
     map colId
       (filter (\<lambda>prevCol. \<not> contains (map (\<lambda>col. JStr (dbColumnName col)) columns)
                                   (columnName prevCol))
          (map snd prevColMap))"

definition syncTable_try :: "env \<Rightarrow> jsval \<Rightarrow> dbstate \<Rightarrow> (error + unit) \<times> dbstate" where
  "syncTable_try e ident st =
     (case GenTable_findOne (\<lambda>r. genTableId r = ident) st of
        (Inl err, st1) \<Rightarrow> (Inl err, st1)
      | (Inr None, st1) \<Rightarrow> (Inl GenDataNotExist, st1)
      | (Inr (Some genTable), st1) \<Rightarrow>
          (case GenTableColumn_findAll ident st1 of
             (Inl err, st2) \<Rightarrow> (Inl err, st2)
           | (Inr genTableCols, st2) \<Rightarrow>
               if length genTableCols \<le> 0 then (Inl OldDataAbnormal, st2)
               else (case columnsByName e (tableName genTable) of
                       None \<Rightarrow> (Inl DbFailure, st2)
                     | Some columns \<Rightarrow>
                         if length columns \<le> 0 then (Inl SyncStructureMissing, st2)
                         else transaction
                                (\<lambda>t. case syncColumns (clock e) ident
                                              (buildPrevColMap genTableCols) columns t of
                                        (Inl err, t') \<Rightarrow> (Inl err, t')
                                      | (Inr _, t') \<Rightarrow>
                                          GenTableColumn_destroy
                                            (\<lambda>r. colId r
                                                    \<in> set (delColIds (buildPrevColMap genTableCols)
                                                              columns))
                                            t')
                                st2)))"

definition syncTable :: "env \<Rightarrow> jsval \<Rightarrow> dbstate \<Rightarrow> (error + unit) \<times> dbstate" where
  "syncTable e ident st =
     (case syncTable_try e ident st of
        (Inl err, st') \<Rightarrow> (Inl SyncTableTransactionErr, st')
      | (Inr _, st') \<Rightarrow> (Inr (), st'))"

text \<open>A catalog row with the given name and declared type, used for concrete evaluations.\<close>

definition liveColumn :: "string \<Rightarrow> string \<Rightarrow> db_column" where
  "liveColumn name ctype =
     \<lparr> dbColumnName = name, dbIsRequired = JStr ''0'', dbIsPk = JStr ''0'', dbSort = JNum 1,
       dbColumnComment = [], dbIsIncrement = JStr ''0'', dbColumnType = ctype \<rparr>"

text \<open>
  A small world for concrete evaluations: the live table \<^verbatim>\<open>la_demo_order\<close> with two
  columns, an empty store, and a stored column \<^verbatim>\<open>content\<close> of table 1 on which an
  administrator has set a dictionary, the operator \<^verbatim>\<open>LIKE\<close> and the widget select.
\<close>

definition demoOrderTable :: db_table where
  "demoOrderTable =
     \<lparr> dbTableName = ''la_demo_order'', dbTableComment = ''order'',
       dbCreateTime = JNull, dbUpdateTime = JNull \<rparr>"

definition demoEnv :: env where
  "demoEnv =
     \<lparr> tablesByNames = (\<lambda>names. Some (filter (\<lambda>t. dbTableName t \<in> set names) [demoOrderTable])),
       columnsByName = (\<lambda>n. if n = ''la_demo_order''
                            then Some [liveColumn ''id'' ''int(11)'', liveColumn ''remark'' ''text'']
                            else Some []),
       clock = (0, 0) \<rparr>"

definition emptyStore :: store where
  "emptyStore = \<lparr> genTables = [], genTableColumns = [], nextTableId = 1, nextColumnId = 1 \<rparr>"

definition storedContent :: gen_table_column where
  "storedContent =
     \<lparr> colId = JNum 7, tableId = JNum 1, columnName = JStr ''content'',
       columnComment = JStr [], columnType = JStr ''text'', columnLength = JNum 0,
       javaField = JStr ''content'', javaType = JStr ''string'', queryType = JStr ''LIKE'',
       sort_col = JNum 3, isPk = JNum 0, isIncrement = JNum 0, isRequired = JNum 1,
       createTime = JNum 0, updateTime = JNum 0, htmlType = JStr ''select'',
       isInsert = JNum 1, isEdit = JNum 1, isList = JNum 0, isQuery = JNum 0,
       dictType = JStr ''notice_type'' \<rparr>"

definition demoStore :: store where
  "demoStore =
     \<lparr> genTables = [(initTable (0, 0) demoOrderTable)\<lparr>genTableId := JNum 1\<rparr>,
                    (initTable (0, 0) demoOrderTable)
                      \<lparr>genTableId := JNum 2, tableName := ''la_shop_goods''\<rparr>],
       genTableColumns = [storedContent,
                          storedContent\<lparr>colId := JNum 8, tableId := JNum 2\<rparr>],
       nextTableId = 3, nextColumnId = 9 \<rparr>"

text \<open>
  For rendering: templates that render two files for a table, a catalog that answers as
  its query is written (the key flag of the key column is the string \<^verbatim>\<open>"1"\<close>), and a
  store with two tree-mode tables. For synchronisation: a catalog in which the table
  \<^verbatim>\<open>la_demo_order\<close> has the one column \<^verbatim>\<open>content\<close>.
\<close>

definition demoTemplates :: "string templates" where
  "demoTemplates =
     \<lparr> prepareVars = (\<lambda>genTable columns pkCol cols. Inr (tableName genTable)),
       getTemplatePaths = (\<lambda>tpl. Inr [''nodecode/model.js.tpl'', ''vue/api.ts.tpl'']),
       render = (\<lambda>tplPath vars. Inr (tplPath @ '' of '' @ vars)) \<rparr>"

definition treeEnv :: env where
  "treeEnv =
     \<lparr> tablesByNames = (\<lambda>names. Some []),
       columnsByName = (\<lambda>n. Some [(liveColumn ''id'' ''int(11)'')\<lparr>dbIsPk := JStr ''1''\<rparr>,
                                   liveColumn ''pid'' ''int(11)'']),
       clock = (0, 0) \<rparr>"

definition treeTable :: "int \<Rightarrow> string \<Rightarrow> gen_table" where
  "treeTable i name =
     (initTable (0, 0) \<lparr> dbTableName = name, dbTableComment = [],
                          dbCreateTime = JNull, dbUpdateTime = JNull \<rparr>)
       \<lparr> genTableId := JNum i, genTpl := JStr ''tree'', subTableFk := JStr ''pid'' \<rparr>"

definition treeStore :: store where
  "treeStore =
     \<lparr> genTables = [treeTable 1 ''la_shop_goods'', treeTable 2 ''la_shop_order''],
       genTableColumns = [], nextTableId = 3, nextColumnId = 1 \<rparr>"

definition syncEnv :: env where
  "syncEnv =
     \<lparr> tablesByNames = (\<lambda>names. Some []),
       columnsByName = (\<lambda>n. if n = ''la_demo_order''
                            then Some [liveColumn ''content'' ''text''] else Some []),
       clock = (0, 0) \<rparr>"


section \<open>Properties of the column classifier\<close>

subsection \<open>Each block changes only its own properties\<close>

lemma javaType_steps:
  "javaType (clearRequiredByName n col) = javaType col"
  "javaType (setInsertByName n col) = javaType col"
  "javaType (setEditByName n col) = javaType col"
  "javaType (setListByName n col) = javaType col"
  "javaType (setQueryByName n col) = javaType col"
  "javaType (setQueryTypeByName l col) = javaType col"
  "javaType (setHtmlTypeByName l col) = javaType col"
  by (simp_all add: clearRequiredByName_def setInsertByName_def setEditByName_def
      setListByName_def setQueryByName_def setQueryTypeByName_def setHtmlTypeByName_def)

lemma htmlType_steps:
  "htmlType (clearRequiredByName n col) = htmlType col"
  "htmlType (setInsertByName n col) = htmlType col"
  "htmlType (setEditByName n col) = htmlType col"
  "htmlType (setListByName n col) = htmlType col"
  "htmlType (setQueryByName n col) = htmlType col"
  "htmlType (setQueryTypeByName l col) = htmlType col"
  by (simp_all add: clearRequiredByName_def setInsertByName_def setEditByName_def
      setListByName_def setQueryByName_def setQueryTypeByName_def)

lemma queryType_steps:
  "queryType (setTypesByColumnType t len n col) = queryType col"
  "queryType (clearRequiredByName n col) = queryType col"
  "queryType (setInsertByName n col) = queryType col"
  "queryType (setEditByName n col) = queryType col"
  "queryType (setListByName n col) = queryType col"
  "queryType (setQueryByName n col) = queryType col"
  "queryType (setHtmlTypeByName l col) = queryType col"
  by (simp_all add: setTypesByColumnType_def clearRequiredByName_def setInsertByName_def
      setEditByName_def setListByName_def setQueryByName_def setHtmlTypeByName_def)

lemma isList_steps:
  "isList (setTypesByColumnType t len n col) = isList col"
  "isList (clearRequiredByName n col) = isList col"
  "isList (setInsertByName n col) = isList col"
  "isList (setEditByName n col) = isList col"
  "isList (setQueryByName n col) = isList col"
  "isList (setQueryTypeByName l col) = isList col"
  "isList (setHtmlTypeByName l col) = isList col"
  by (simp_all add: setTypesByColumnType_def clearRequiredByName_def setInsertByName_def
      setEditByName_def setQueryByName_def setQueryTypeByName_def setHtmlTypeByName_def)

lemma require_undefined: "require = JUndefined"
  by (simp add: require_def getProp_def genConstants_def)

lemma initColumn_isList: "isList (initColumn clk tid c) = JUndefined"
  by (simp add: initColumn_def Let_def isList_steps setListByName_def require_undefined)

lemma toLowerCase_time_names:
  "toLowerCase ''create_time'' = ''create_time''"
  "toLowerCase ''update_time'' = ''update_time''"
  "toLowerCase ''delete_time'' = ''delete_time''"
  by (simp_all add: toLowerCase_def toLowerChar_def lowerLetters_def upperLetters_def)

lemma setHtmlTypeByName_time_names:
  "setHtmlTypeByName ''create_time'' col = col"
  "setHtmlTypeByName ''update_time'' col = col"
  "setHtmlTypeByName ''delete_time'' col = col"
  by (simp_all add: setHtmlTypeByName_def endsWith_def contains_def)

lemma time_names_lower:
  assumes "n \<in> {''create_time'', ''update_time'', ''delete_time''}"
  shows "setHtmlTypeByName (toLowerCase n) col = col"
proof -
  consider "n = ''create_time''" | "n = ''update_time''" | "n = ''delete_time''"
    using assms by blast
  then show ?thesis
    by cases (simp_all only: toLowerCase_time_names setHtmlTypeByName_time_names)
qed

lemmas eval_defs = liveColumn_def initColumn_def Let_def getDbType_def getColumnLength_def
  indexOf_def indexOfFrom_def substring_def parseInt_def isDigit_def isWhiteSpace_def
  toLowerCase_def toLowerChar_def lowerLetters_def upperLetters_def endsWith_def contains_def
  getProp_def genConstants_def
  require_def setTypesByColumnType_def clearRequiredByName_def setInsertByName_def
  setEditByName_def setListByName_def setQueryByName_def setQueryTypeByName_def
  setHtmlTypeByName_def columnTypeStr_def columnTypeText_def columnTypeTime_def
  columnTypeNumber_def columnTimeName_def columnNameNotAdd_def columnNameNotEdit_def
  columnNameNotList_def columnNameNotQuery_def typeString_def typeFloat_def typeInt_def
  typeDate_def htmlInput_def htmlTextarea_def htmlSelect_def htmlRadio_def htmlDatetime_def
  htmlImageUpload_def htmlFileUpload_def htmlEditor_def

subsection \<open>Time-named columns\<close>

text \<open>
  Claim C4, as amended. For a column named \<^verbatim>\<open>create_time\<close>, \<^verbatim>\<open>update_time\<close> or
  \<^verbatim>\<open>delete_time\<close> the classifier assigns the logical type date and the widget datetime
  whenever the base type is outside the character and text families (so for every
  numeric, temporal or unknown type). The character/text test comes first in the
  \<^verbatim>\<open>if\<close> chain: inside these families the logical type stays string and the widget is
  input, or textarea for a text type or a length of 500 or more.
\<close>

theorem initColumn_time_name:
  assumes "dbColumnName c \<in> {''create_time'', ''update_time'', ''delete_time''}"
  shows "(javaType (initColumn clk tid c), htmlType (initColumn clk tid c)) =
         (if contains (columnTypeStr @ columnTypeText) (getDbType (dbColumnType c))
          then (JStr typeString,
                JStr (if getColumnLength (dbColumnType c) \<ge> 500
                         \<or> contains columnTypeText (getDbType (dbColumnType c))
                      then htmlTextarea else htmlInput))
          else (JStr typeDate, JStr htmlDatetime))"
proof -
  have tn: "contains columnTimeName (dbColumnName c)"
    using assms by (auto simp: contains_def columnTimeName_def)
  show ?thesis
    using tn
    by (simp add: initColumn_def Let_def time_names_lower [OF assms] javaType_steps
        htmlType_steps setTypesByColumnType_def)
qed

theorem initColumn_time_name_witness:
  "dbColumnName (liveColumn ''create_time'' ''int(11)'')
     \<in> {''create_time'', ''update_time'', ''delete_time''}
   \<and> (javaType (initColumn (0, 0) (JNum 1) (liveColumn ''create_time'' ''int(11)'')),
       htmlType (initColumn (0, 0) (JNum 1) (liveColumn ''create_time'' ''int(11)'')))
     = (JStr ''core.TsTime'', JStr ''datetime'')"
  using initColumn_time_name [of "liveColumn ''create_time'' ''int(11)''" "(0, 0)" "JNum 1"]
  by (simp add: eval_defs)

text \<open>
  The claim as stated (date and datetime for every raw SQL type, character types
  included) fails for \<^verbatim>\<open>create_time varchar(20)\<close>.
\<close>

theorem initColumn_time_name_varchar_counterexample:
  "javaType (initColumn (0, 0) (JNum 1) (liveColumn ''create_time'' ''varchar(20)''))
     = JStr ''string''
   \<and> htmlType (initColumn (0, 0) (JNum 1) (liveColumn ''create_time'' ''varchar(20)''))
     = JStr ''input''
   \<and> javaType (initColumn (0, 0) (JNum 1) (liveColumn ''create_time'' ''varchar(20)''))
     \<noteq> JStr typeDate
   \<and> htmlType (initColumn (0, 0) (JNum 1) (liveColumn ''create_time'' ''varchar(20)''))
     \<noteq> JStr htmlDatetime"
  by (simp add: eval_defs)

subsection \<open>Numeric columns\<close>

text \<open>
  Claim C5, as amended. For a column whose base type is in the numeric family and whose
  name is not one of the five time names, the logical type is int when the declared
  type carries no scale component, and the widget is input unless one of the name rules
  (status, is_show, is_disable, type, sex, image, file, content) replaces it.
\<close>

theorem initColumn_numeric:
  assumes "contains columnTypeNumber (getDbType (dbColumnType c))"
      and "\<not> contains columnTimeName (dbColumnName c)"
  shows "(CHR '','' \<notin> set (dbColumnType c) \<longrightarrow> javaType (initColumn clk tid c) = JStr typeInt)
       \<and> (\<not> (endsWith (toLowerCase (dbColumnName c)) ''status''
              \<or> contains [''is_show'', ''is_disable''] (toLowerCase (dbColumnName c))
              \<or> endsWith (toLowerCase (dbColumnName c)) ''type''
              \<or> endsWith (toLowerCase (dbColumnName c)) ''sex''
              \<or> endsWith (toLowerCase (dbColumnName c)) ''image''
              \<or> endsWith (toLowerCase (dbColumnName c)) ''file''
              \<or> endsWith (toLowerCase (dbColumnName c)) ''content'')
            \<longrightarrow> htmlType (initColumn clk tid c) = JStr htmlInput)"
proof -
  have base: "getDbType (dbColumnType c) \<in> set columnTypeNumber"
    using assms(1) by (simp add: contains_def)
  then have nocomma: "CHR '','' \<notin> set (getDbType (dbColumnType c))"
    by (auto simp: columnTypeNumber_def)
  have nostr: "\<not> contains (columnTypeStr @ columnTypeText) (getDbType (dbColumnType c))"
    using base by (auto simp: contains_def columnTypeNumber_def columnTypeStr_def columnTypeText_def)
  have notime: "\<not> contains columnTypeTime (getDbType (dbColumnType c))"
    using base by (auto simp: contains_def columnTypeNumber_def columnTypeTime_def)
  show ?thesis
    using assms nocomma nostr notime
    by (simp add: initColumn_def Let_def javaType_steps htmlType_steps
        setTypesByColumnType_def setHtmlTypeByName_def)
qed

theorem initColumn_numeric_witness:
  "contains columnTypeNumber (getDbType (dbColumnType (liveColumn ''stock'' ''int(11)'')))
   \<and> \<not> contains columnTimeName (dbColumnName (liveColumn ''stock'' ''int(11)''))
   \<and> javaType (initColumn (0, 0) (JNum 1) (liveColumn ''stock'' ''int(11)'')) = JStr ''int''
   \<and> htmlType (initColumn (0, 0) (JNum 1) (liveColumn ''stock'' ''int(11)'')) = JStr ''input''"
  using initColumn_numeric [of "liveColumn ''stock'' ''int(11)''" "(0, 0)" "JNum 1"]
  by (simp add: eval_defs)

text \<open>
  The claim as stated (widget input for every numeric column) fails for
  \<^verbatim>\<open>status tinyint(1)\<close>, which the name rule turns into a radio widget.
\<close>

theorem initColumn_numeric_status_counterexample:
  "contains columnTypeNumber (getDbType (dbColumnType (liveColumn ''status'' ''tinyint(1)'')))
   \<and> htmlType (initColumn (0, 0) (JNum 1) (liveColumn ''status'' ''tinyint(1)''))
       = JStr ''radio''
   \<and> htmlType (initColumn (0, 0) (JNum 1) (liveColumn ''status'' ''tinyint(1)''))
       \<noteq> JStr htmlInput"
  by (simp add: eval_defs)

text \<open>
  The scale test reads the base type, from which \<open>getDbType\<close> has already cut the
  parenthesised part: \<^verbatim>\<open>price decimal(10,2)\<close> is classified int.
\<close>

lemma initColumn_decimal_scale:
  "contains columnTypeNumber (getDbType (dbColumnType (liveColumn ''price'' ''decimal(10,2)'')))
   \<and> CHR '','' \<in> set (dbColumnType (liveColumn ''price'' ''decimal(10,2)''))
   \<and> javaType (initColumn (0, 0) (JNum 1) (liveColumn ''price'' ''decimal(10,2)''))
       = JStr ''int''"
  by (simp add: eval_defs)

subsection \<open>Query operator\<close>

text \<open>
  Claim C6, as amended. The classifier assigns the operator \<^verbatim>\<open>LIKE\<close> exactly when the
  lower-cased column name ends with \<^verbatim>\<open>name\<close> or is equal to \<^verbatim>\<open>title\<close> or to
  \<^verbatim>\<open>mobile\<close>; every other column gets \<^verbatim>\<open>=\<close>.
\<close>

theorem initColumn_queryType:
  "queryType (initColumn clk tid c) =
     JStr (if endsWith (toLowerCase (dbColumnName c)) ''name''
              \<or> toLowerCase (dbColumnName c) = ''title''
              \<or> toLowerCase (dbColumnName c) = ''mobile''
           then ''LIKE'' else ''='')"
  by (simp add: initColumn_def Let_def queryType_steps setQueryTypeByName_def contains_def
      getProp_def genConstants_def)

text \<open>
  The claim as stated (suffix match for all three words) fails for \<^verbatim>\<open>sub_title\<close>:
  the name ends with \<^verbatim>\<open>title\<close> and the operator is \<^verbatim>\<open>=\<close>.
\<close>

theorem initColumn_queryType_sub_title_counterexample:
  "endsWith (toLowerCase (dbColumnName (liveColumn ''sub_title'' ''varchar(100)''))) ''title''
   \<and> queryType (initColumn (0, 0) (JNum 1) (liveColumn ''sub_title'' ''varchar(100)''))
       = JStr ''=''
   \<and> queryType (initColumn (0, 0) (JNum 1) (liveColumn ''sub_title'' ''varchar(100)''))
       \<noteq> JStr ''LIKE''"
  by (simp add: eval_defs)

section \<open>Properties of the table names\<close>

declare toCamelCase_loop.simps [simp del]

text \<open>
  \<open>splitOn\<close> is the split at the separator: no segment contains the separator, and
  joining the segments with the separator gives the string back.
\<close>

lemma splitOn_nonempty: "splitOn c s \<noteq> []"
  by (cases s) simp_all

lemma splitOn_no_sep: "w \<in> set (splitOn c s) \<Longrightarrow> c \<notin> set w"
proof (induction s arbitrary: w)
  case Nil
  then show ?case by simp
next
  case (Cons x xs)
  obtain v vs where vs: "splitOn c xs = v # vs"
    using splitOn_nonempty [of c xs] by (cases "splitOn c xs") auto
  show ?case
  proof (cases "x = c")
    case True
    with Cons show ?thesis by auto
  next
    case False
    with Cons.prems vs have "w = x # v \<or> w \<in> set vs" by simp
    then show ?thesis
      using Cons.IH [of v] Cons.IH [of w] vs False by auto
  qed
qed

lemma splitOn_join:
  "concat (map (\<lambda>w. w @ [c]) (butlast (splitOn c s))) @ last (splitOn c s) = s"
proof (induction s)
  case Nil
  then show ?case by simp
next
  case (Cons x xs)
  obtain v vs where vs: "splitOn c xs = v # vs"
    using splitOn_nonempty [of c xs] by (cases "splitOn c xs") auto
  show ?case
    using Cons vs by (cases vs) auto
qed

text \<open>The loop of \<^verbatim>\<open>toCamelCase\<close> upper-cases every word from index \<open>i\<close> on.\<close>

lemma toCamelCase_loop_eq:
  "i \<le> length ws \<Longrightarrow> toCamelCase_loop i ws = take i ws @ map upperFirst (drop i ws)"
proof (induction i ws rule: toCamelCase_loop.induct)
  case (1 i ws)
  show ?case
  proof (cases "i < length ws")
    case True
    have "toCamelCase_loop i ws = toCamelCase_loop (i + 1) (ws[i := upperFirst (ws ! i)])"
      using True by (simp add: toCamelCase_loop.simps [of i ws])
    also have "\<dots> = take (i + 1) (ws[i := upperFirst (ws ! i)])
                     @ map upperFirst (drop (i + 1) (ws[i := upperFirst (ws ! i)]))"
      using True "1.IH" by simp
    also have "\<dots> = take i ws @ [upperFirst (ws ! i)] @ map upperFirst (drop (Suc i) ws)"
      using True by (simp add: take_Suc_conv_app_nth)
    also have "\<dots> = take i ws @ map upperFirst (drop i ws)"
      using True by (simp add: Cons_nth_drop_Suc [symmetric])
    finally show ?thesis .
  next
    case False
    with "1.prems" have "i = length ws" by simp
    then show ?thesis
      by (subst toCamelCase_loop.simps) simp
  qed
qed

lemma toCamelCase_spec: "toCamelCase s = spec_camelCase s"
proof -
  obtain w ws where ws: "splitOn (CHR ''_'') s = w # ws"
    using splitOn_nonempty [of "CHR ''_''" s] by (cases "splitOn (CHR ''_'') s") auto
  then show ?thesis
    by (simp add: toCamelCase_def spec_camelCase_def toCamelCase_loop_eq)
qed

lemma toClassName_spec: "toClassName name = spec_camelCase (spec_stripPrefix name)"
  by (simp add: toClassName_def spec_stripPrefix_def dbTablePrefix_def isRemoveTablePrefix_def
      Let_def toCamelCase_spec numeral_3_eq_3)

lemma toModuleName_spec: "toModuleName name = spec_lastSegment name"
  using splitOn_nonempty [of "CHR ''_''" name]
  by (simp add: toModuleName_def spec_lastSegment_def Let_def last_conv_nth)

lemma initTable_genTableId:
  "(initTable clk t)\<lparr>genTableId := JUndefined\<rparr> = initTable clk t"
  by (simp add: initTable_def)

lemma initTable_names:
  "tableName (initTable clk t) = dbTableName t"
  "entityName (initTable clk t) = spec_camelCase (spec_stripPrefix (dbTableName t))"
  "moduleName (initTable clk t) = spec_lastSegment (dbTableName t)"
  by (simp_all add: initTable_def toClassName_spec toModuleName_spec)

lemmas naming_eval = initTable_def toClassName_def toModuleName_def toCamelCase_def
  toCamelCase_loop.simps upperFirst_def toUpperCase_def toUpperChar_def lowerLetters_def
  upperLetters_def startsWith_def dbTablePrefix_def isRemoveTablePrefix_def replace_def
  tableWord_def spec_camelCase_def spec_stripPrefix_def spec_lastSegment_def Let_def

section \<open>Properties of import and delete\<close>

subsection \<open>A successful import stores the complete rows\<close>

lemma importColumns_ok:
  "importColumns e tid cs (s, fs) = (Inr u, (s', fs')) \<Longrightarrow> s' = completeColumns e tid cs s"
proof (induction cs arbitrary: s fs)
  case Nil
  then show ?case by simp
next
  case (Cons c cs)
  then show ?case
    by (auto simp: GenTableColumn_create_def Let_def split: if_splits)
qed

lemma importTables_ok:
  "importTables e ts (s, fs) = (Inr u, (s', fs')) \<Longrightarrow> s' = completeImport e ts s"
proof (induction ts arbitrary: s fs)
  case Nil
  then show ?case by simp
next
  case (Cons t ts)
  show ?case
  proof (cases "rejects fs")
    case True
    with Cons.prems show ?thesis by (simp add: GenTable_create_def)
  next
    case False
    let ?row = "(initTable (clock e) t)\<lparr>genTableId := JNum (nextTableId s)\<rparr>"
    let ?s1 = "s\<lparr>genTables := genTables s @ [?row], nextTableId := nextTableId s + 1\<rparr>"
    from False Cons.prems obtain columns where
      cols: "columnsByName e (dbTableName t) = Some columns"
      by (cases "columnsByName e (dbTableName t)") (auto simp: GenTable_create_def Let_def)
    from False Cons.prems cols obtain s2 fs2 where
      ic: "importColumns e (JNum (nextTableId s)) columns (?s1, tl fs) = (Inr (), (s2, fs2))"
      and rest: "importTables e ts (s2, fs2) = (Inr u, (s', fs'))"
      by (auto simp: GenTable_create_def Let_def split: prod.splits sum.splits)
    from ic have "s2 = completeColumns e (JNum (nextTableId s)) columns ?s1"
      by (rule importColumns_ok)
    moreover from rest have "s' = completeImport e ts s2"
      by (rule Cons.IH)
    ultimately show ?thesis
      using cols by simp
  qed
qed

lemma importColumns_no_faults:
  "importColumns e tid cs (s, []) = (Inr (), (completeColumns e tid cs s, []))"
  by (induction cs arbitrary: s) (simp_all add: GenTableColumn_create_def rejects_def Let_def)

lemma importTables_no_faults:
  "\<forall>t \<in> set ts. columnsByName e (dbTableName t) \<noteq> None \<Longrightarrow>
   importTables e ts (s, []) = (Inr (), (completeImport e ts s, []))"
proof (induction ts arbitrary: s)
  case Nil
  then show ?case by simp
next
  case (Cons t ts)
  then obtain columns where "columnsByName e (dbTableName t) = Some columns"
    by auto
  with Cons show ?case
    by (simp add: GenTable_create_def rejects_def Let_def importColumns_no_faults)
qed

lemma transaction_rows:
  "transaction body (s, fs) = (Inl err, (s', fs')) \<Longrightarrow>
   genTables s' = genTables s \<and> genTableColumns s' = genTableColumns s"
  by (auto simp: transaction_def split: prod.splits sum.splits)

lemma transaction_result:
  "transaction body st = (Inr v, st') \<Longrightarrow> body st = (Inr v, st')"
  by (auto simp: transaction_def split: prod.splits sum.splits)

lemma importTable_not_found:
  "tablesByNames e names = Some [] \<Longrightarrow> importTable e names st = (Inl TableNotExist, st)"
  by (simp add: importTable_def)

lemma importTable_outcome:
  assumes "tablesByNames e names = Some dbTbs" and "dbTbs \<noteq> []"
  shows "case importTable e names (s, fs) of
           (Inr u, (s', fs')) \<Rightarrow> s' = completeImport e dbTbs s
         | (Inl err, (s', fs')) \<Rightarrow>
             err = ImportTransactionErr \<and> genTables s' = genTables s
             \<and> genTableColumns s' = genTableColumns s"
proof -
  have unfold: "importTable e names (s, fs) =
      (case transaction (importTables e dbTbs) (s, fs) of
         (Inl err, st') \<Rightarrow> (Inl ImportTransactionErr, st')
       | (Inr _, st') \<Rightarrow> (Inr (), st'))"
    using assms by (simp add: importTable_def)
  define r where "r = fst (transaction (importTables e dbTbs) (s, fs))"
  define s1 where "s1 = fst (snd (transaction (importTables e dbTbs) (s, fs)))"
  define fs1 where "fs1 = snd (snd (transaction (importTables e dbTbs) (s, fs)))"
  have tr: "transaction (importTables e dbTbs) (s, fs) = (r, (s1, fs1))"
    by (simp add: r_def s1_def fs1_def)
  show ?thesis
  proof (cases r)
    case (Inl err)
    have "genTables s1 = genTables s \<and> genTableColumns s1 = genTableColumns s"
      using tr Inl transaction_rows [of "importTables e dbTbs" s fs err s1 fs1]
      by simp
    then show ?thesis
      by (simp add: unfold tr Inl)
  next
    case (Inr u)
    have "transaction (importTables e dbTbs) (s, fs) = (Inr u, (s1, fs1))"
      using tr Inr by simp
    then have "importTables e dbTbs (s, fs) = (Inr u, (s1, fs1))"
      by (rule transaction_result)
    then have "s1 = completeImport e dbTbs s" by (rule importTables_ok)
    then show ?thesis
      by (simp add: unfold tr Inr)
  qed
qed

lemma importTable_no_faults:
  assumes "tablesByNames e names = Some dbTbs" and "dbTbs \<noteq> []"
      and "\<forall>t \<in> set dbTbs. columnsByName e (dbTableName t) \<noteq> None"
  shows "importTable e names (s, []) = (Inr (), (completeImport e dbTbs s, []))"
proof -
  have "importTables e dbTbs (s, []) = (Inr (), (completeImport e dbTbs s, []))"
    using assms(3) by (rule importTables_no_faults)
  then have "transaction (importTables e dbTbs) (s, [])
               = (Inr (), (completeImport e dbTbs s, []))"
    by (simp add: transaction_def)
  then show ?thesis
    using assms(1,2) by (simp add: importTable_def)
qed

lemma completeColumns_tables:
  "genTables (completeColumns e tid cs s) = genTables s
   \<and> nextTableId (completeColumns e tid cs s) = nextTableId s"
  by (induction cs arbitrary: s) simp_all

lemma completeImport_tables:
  "map (\<lambda>r. r\<lparr>genTableId := JUndefined\<rparr>) (genTables (completeImport e ts s))
     = map (\<lambda>r. r\<lparr>genTableId := JUndefined\<rparr>) (genTables s) @ map (initTable (clock e)) ts"
  by (induction ts arbitrary: s) (simp_all add: completeColumns_tables initTable_genTableId)

lemmas store_eval = importTable_def transaction_def GenTable_create_def
  GenTableColumn_create_def rejects_def demoEnv_def demoOrderTable_def emptyStore_def

lemma demo_import_ok:
  "tablesByNames demoEnv [''la_demo_order''] = Some [demoOrderTable]
   \<and> fst (importTable demoEnv [''la_demo_order''] (emptyStore, [])) = Inr ()
   \<and> map entityName (genTables (fst (snd (importTable demoEnv [''la_demo_order''] (emptyStore, [])))))
       = [''demoOrder'']
   \<and> map moduleName (genTables (fst (snd (importTable demoEnv [''la_demo_order''] (emptyStore, [])))))
       = [''order'']
   \<and> map columnName
        (genTableColumns (fst (snd (importTable demoEnv [''la_demo_order''] (emptyStore, [])))))
       = [JStr ''id'', JStr ''remark'']
   \<and> map tableId
        (genTableColumns (fst (snd (importTable demoEnv [''la_demo_order''] (emptyStore, [])))))
       = [JNum 1, JNum 1]"
  by (simp add: store_eval naming_eval eval_defs)

subsection \<open>Atomicity of the import\<close>

text \<open>
  Claim C2. Let the catalog query of \<^verbatim>\<open>importTable\<close> answer with the list \<open>dbTbs\<close> of live
  tables. When the list is empty the call fails with the not-found error and the store
  is as before. When it is not empty, whatever calls the database rejects, the call
  either succeeds, and then the store holds every table record and every column record of
  a complete import, or fails with the transaction error, and then the table rows and
  the column rows are those from before the call. With no rejected call and every column
  query answered, the call succeeds.
\<close>

theorem importTable_atomic:
  assumes "tablesByNames e names = Some dbTbs"
  shows "(dbTbs = [] \<longrightarrow> importTable e names (s, fs) = (Inl TableNotExist, (s, fs)))
       \<and> (dbTbs \<noteq> [] \<longrightarrow>
            (case importTable e names (s, fs) of
               (Inr u, (s', fs')) \<Rightarrow> s' = completeImport e dbTbs s
             | (Inl err, (s', fs')) \<Rightarrow>
                 err = ImportTransactionErr \<and> genTables s' = genTables s
                 \<and> genTableColumns s' = genTableColumns s))
       \<and> (dbTbs \<noteq> [] \<and> fs = [] \<and> (\<forall>t \<in> set dbTbs. columnsByName e (dbTableName t) \<noteq> None) \<longrightarrow>
            importTable e names (s, fs) = (Inr (), (completeImport e dbTbs s, [])))"
proof (intro conjI impI)
  assume "dbTbs = []"
  with assms show "importTable e names (s, fs) = (Inl TableNotExist, (s, fs))"
    by (simp add: importTable_not_found)
next
  assume "dbTbs \<noteq> []"
  with assms show "case importTable e names (s, fs) of
          (Inr u, (s', fs')) \<Rightarrow> s' = completeImport e dbTbs s
        | (Inl err, (s', fs')) \<Rightarrow>
            err = ImportTransactionErr \<and> genTables s' = genTables s
            \<and> genTableColumns s' = genTableColumns s"
    by (rule importTable_outcome)
next
  assume a: "dbTbs \<noteq> [] \<and> fs = [] \<and> (\<forall>t \<in> set dbTbs. columnsByName e (dbTableName t) \<noteq> None)"
  then have "importTable e names (s, []) = (Inr (), (completeImport e dbTbs s, []))"
    using assms by (intro importTable_no_faults) auto
  with a show "importTable e names (s, fs) = (Inr (), (completeImport e dbTbs s, []))"
    by simp
qed

theorem importTable_atomic_witness:
  "tablesByNames demoEnv [''la_demo_order''] = Some [demoOrderTable]
   \<and> fst (importTable demoEnv [''la_demo_order''] (emptyStore, [False, False, True]))
       = Inl ImportTransactionErr
   \<and> genTables (fst (snd (importTable demoEnv [''la_demo_order'']
                              (emptyStore, [False, False, True])))) = []
   \<and> genTableColumns (fst (snd (importTable demoEnv [''la_demo_order'']
                                    (emptyStore, [False, False, True])))) = []
   \<and> importTable demoEnv [''la_demo_order''] (emptyStore, [])
       = (Inr (), (completeImport demoEnv [demoOrderTable] emptyStore, []))"
proof -
  have h: "tablesByNames demoEnv [''la_demo_order''] = Some [demoOrderTable]"
    by (simp add: demoEnv_def demoOrderTable_def)
  have cols: "\<forall>t \<in> set [demoOrderTable]. columnsByName demoEnv (dbTableName t) \<noteq> None"
    by (simp add: demoEnv_def)
  have ok: "importTable demoEnv [''la_demo_order''] (emptyStore, [])
              = (Inr (), (completeImport demoEnv [demoOrderTable] emptyStore, []))"
    using importTable_atomic [OF h, of emptyStore "[]"] cols by simp
  define run where "run = importTable demoEnv [''la_demo_order''] (emptyStore, [False, False, True])"
  have fails: "fst run = Inl ImportTransactionErr"
    by (simp add: run_def store_eval Let_def)
  have run: "run = (Inl ImportTransactionErr, (fst (snd run), snd (snd run)))"
    using fails by (metis prod.collapse)
  have "case run of
          (Inr u, (s', fs')) \<Rightarrow> s' = completeImport demoEnv [demoOrderTable] emptyStore
        | (Inl err, (s', fs')) \<Rightarrow>
            err = ImportTransactionErr \<and> genTables s' = genTables emptyStore
            \<and> genTableColumns s' = genTableColumns emptyStore"
    using importTable_atomic [OF h, of emptyStore "[False, False, True]"]
    by (simp add: run_def)
  then have "genTables (fst (snd run)) = genTables emptyStore
             \<and> genTableColumns (fst (snd run)) = genTableColumns emptyStore"
    by (subst (asm) run) (simp add: case_prod_beta)
  then show ?thesis
    using h ok fails by (simp add: run_def emptyStore_def)
qed

subsection \<open>Names of an imported table\<close>

text \<open>
  Claim C3, as amended. For every table name T successfully imported, the persisted table
  record has \<open>entityName\<close> equal to the camel case of T after stripping the prefix
  \<^verbatim>\<open>la_\<close> (the first underscore-delimited segment as it is, every later segment with its
  first letter in upper case), and \<open>moduleName\<close> equal to the last underscore-delimited
  segment of T.
\<close>

theorem importTable_names:
  assumes "tablesByNames e names = Some dbTbs"
      and "importTable e names (s, fs) = (Inr (), (s', fs'))"
      and "t \<in> set dbTbs"
  shows "\<exists>row \<in> set (genTables s').
           tableName row = dbTableName t
           \<and> entityName row = spec_camelCase (spec_stripPrefix (dbTableName t))
           \<and> moduleName row = spec_lastSegment (dbTableName t)"
proof -
  have ne: "dbTbs \<noteq> []" using assms(3) by auto
  have "s' = completeImport e dbTbs s"
    using importTable_outcome [OF assms(1) ne, of s fs] assms(2) by simp
  then have "initTable (clock e) t
               \<in> set (map (\<lambda>r. r\<lparr>genTableId := JUndefined\<rparr>) (genTables s'))"
    using assms(3) by (simp add: completeImport_tables)
  then obtain row where row: "row \<in> set (genTables s')"
    and eq: "row\<lparr>genTableId := JUndefined\<rparr> = initTable (clock e) t"
    by auto
  have "tableName row = tableName (row\<lparr>genTableId := JUndefined\<rparr>)"
       "entityName row = entityName (row\<lparr>genTableId := JUndefined\<rparr>)"
       "moduleName row = moduleName (row\<lparr>genTableId := JUndefined\<rparr>)"
    by simp_all
  then show ?thesis
    using row eq by (auto simp: initTable_names)
qed

theorem importTable_names_witness:
  "tablesByNames demoEnv [''la_demo_order''] = Some [demoOrderTable]
   \<and> demoOrderTable \<in> set [demoOrderTable]
   \<and> fst (importTable demoEnv [''la_demo_order''] (emptyStore, [])) = Inr ()
   \<and> (\<exists>row \<in> set (genTables (fst (snd (importTable demoEnv [''la_demo_order''] (emptyStore, []))))).
         tableName row = ''la_demo_order'' \<and> entityName row = ''demoOrder''
         \<and> moduleName row = ''order'')"
proof -
  have h: "tablesByNames demoEnv [''la_demo_order''] = Some [demoOrderTable]"
    by (simp add: demoEnv_def demoOrderTable_def)
  obtain s' fs' where run: "importTable demoEnv [''la_demo_order''] (emptyStore, []) = (Inr (), (s', fs'))"
    using demo_import_ok by (cases "importTable demoEnv [''la_demo_order''] (emptyStore, [])") auto
  have names: "spec_camelCase (spec_stripPrefix ''la_demo_order'') = ''demoOrder''"
              "spec_lastSegment ''la_demo_order'' = ''order''"
    by (simp_all add: naming_eval)
  show ?thesis
    using h run names importTable_names [OF h run, of demoOrderTable]
    by (simp add: demoOrderTable_def)
qed

text \<open>
  The claim as stated (Pascal case) fails for \<^verbatim>\<open>la_demo_order\<close>: the persisted entity name
  is \<^verbatim>\<open>demoOrder\<close>, and \<^verbatim>\<open>toPascalCase\<close> of the stripped name is \<^verbatim>\<open>DemoOrder\<close>.
\<close>

theorem entityName_camel_counterexample:
  "map entityName (genTables (fst (snd (importTable demoEnv [''la_demo_order''] (emptyStore, [])))))
     = [''demoOrder'']
   \<and> toPascalCase (spec_stripPrefix ''la_demo_order'') = Inr ''DemoOrder''"
proof -
  have "toPascalCase (spec_stripPrefix ''la_demo_order'') = Inr ''DemoOrder''"
    by (simp add: toPascalCase_def spec_stripPrefix_def startsWith_def toUpperCase_def
        toUpperChar_def lowerLetters_def upperLetters_def)
  then show ?thesis
    using demo_import_ok by simp
qed

subsection \<open>Delete\<close>

lemma delTable_cases:
  "delTable ids (s, fs) =
     (if rejects fs
      then (Inl DelTableTransactionFailed, (s, tl fs))
      else if rejects (tl fs)
      then (Inl DelTableTransactionFailed, (s, tl (tl fs)))
      else (Inr (), (s\<lparr>genTables := filter (\<lambda>r. genTableId r \<notin> set ids) (genTables s),
                       genTableColumns := filter (\<lambda>c. tableId c \<notin> set ids) (genTableColumns s)\<rparr>,
                     tl (tl fs))))"
proof (cases "rejects fs")
  case True
  then show ?thesis
    by (simp add: delTable_def transaction_def GenTable_destroy_def)
next
  case False
  show ?thesis
  proof (cases "rejects (tl fs)")
    case True
    with False show ?thesis
      by (simp add: delTable_def transaction_def GenTable_destroy_def GenTableColumn_destroy_def)
  next
    case nr: False
    with False show ?thesis
      by (simp add: delTable_def transaction_def GenTable_destroy_def GenTableColumn_destroy_def)
  qed
qed

text \<open>
  Claim C8. When \<^verbatim>\<open>delTable\<close> completes for the identifiers \<open>ids\<close>, the table rows left
  are exactly the former rows whose identifier is not in \<open>ids\<close>, and the column rows left
  are exactly the former rows whose \<open>tableId\<close> is not in \<open>ids\<close>; every other row is
  unchanged and in its place. When it fails, no row is changed. It completes whenever
  the database rejects neither of its two calls.
\<close>

theorem delTable_exact:
  "(case delTable ids (s, fs) of
      (Inr u, (s', fs')) \<Rightarrow>
        genTables s' = filter (\<lambda>r. genTableId r \<notin> set ids) (genTables s)
        \<and> genTableColumns s' = filter (\<lambda>c. tableId c \<notin> set ids) (genTableColumns s)
    | (Inl err, (s', fs')) \<Rightarrow>
        err = DelTableTransactionFailed \<and> genTables s' = genTables s
        \<and> genTableColumns s' = genTableColumns s)
   \<and> (\<not> rejects fs \<and> \<not> rejects (tl fs) \<longrightarrow> fst (delTable ids (s, fs)) = Inr ())"
  by (simp add: delTable_cases)

theorem delTable_exact_witness:
  "\<not> rejects [] \<and> \<not> rejects (tl [])
   \<and> fst (delTable [JNum 1] (demoStore, [])) = Inr ()
   \<and> map genTableId (genTables demoStore) = [JNum 1, JNum 2]
   \<and> map tableId (genTableColumns demoStore) = [JNum 1, JNum 2]
   \<and> genTables (fst (snd (delTable [JNum 1] (demoStore, [])))) = [genTables demoStore ! 1]
   \<and> genTableColumns (fst (snd (delTable [JNum 1] (demoStore, []))))
       = [genTableColumns demoStore ! 1]"
  using delTable_exact [where ids = "[JNum 1]" and s = demoStore and fs = "[]"]
  by (auto simp: rejects_def demoStore_def storedContent_def initTable_def
      split: prod.splits sum.splits)

section \<open>Properties of the synchronisation\<close>

subsection \<open>The object passed to the update\<close>

text \<open>
  The guard \<^verbatim>\<open>col.isList === 0\<close> of the matched branch never holds: on the promise the
  property reads \<^verbatim>\<open>undefined\<close>, and the classified column itself never has
  \<open>isList = 0\<close> either (\<open>initColumn_isList\<close>). The object passed to the update has the
  identifier of the stored column and, under the condition of the second guard, its
  widget and its required flag; it has no other property.
\<close>

lemma keepPrevious_unlisted:
  "isList col \<noteq> JNum 0 \<Longrightarrow>
   dictType (keepPrevious col prevCol) = dictType col
   \<and> queryType (keepPrevious col prevCol) = queryType col"
  by (simp add: keepPrevious_def Let_def)

lemma keepPrevious_awaited:
  "dictType (keepPrevious (initColumn clk tid c) prevCol) = dictType (initColumn clk tid c)
   \<and> queryType (keepPrevious (initColumn clk tid c) prevCol) = queryType (initColumn clk tid c)"
  by (rule keepPrevious_unlisted) (simp add: initColumn_isList)

lemma syncMatched_never_carries:
  "dictType (syncMatched clk tid c prevCol) = JUndefined
   \<and> queryType (syncMatched clk tid c prevCol) = JUndefined"
  by (simp add: syncMatched_def keepPrevious_def unawaited_def Let_def)

lemma syncMatched_htmlType:
  "(isRequired prevCol = JNum 1 \<and> isPk prevCol = JNum 0 \<and> isInsert prevCol = JNum 1)
     \<or> isEdit prevCol = JNum 1 \<Longrightarrow>
   htmlType (syncMatched clk tid c prevCol) = htmlType prevCol
   \<and> isRequired (syncMatched clk tid c prevCol) = isRequired prevCol"
  by (simp add: syncMatched_def keepPrevious_def unawaited_def Let_def)

subsection \<open>The stored column after a synchronisation\<close>

text \<open>
  Written into its own row, the object of the matched branch changes nothing: every
  property it has is the value the row already holds.
\<close>

lemma assignGiven_syncMatched: "assignGiven (syncMatched clk ident c p) p = p"
  by (simp add: assignGiven_def syncMatched_def keepPrevious_def unawaited_def given_def Let_def)

lemma update_matched_rows:
  assumes "distinct (map colId rows)" and "p \<in> set rows"
  shows "map (\<lambda>r. if colId r = colId p then assignGiven (syncMatched clk ident c p) r else r) rows
           = rows"
proof (rule map_idI)
  fix r assume r: "r \<in> set rows"
  have inj: "inj_on colId (set rows)"
    using assms(1) by (simp add: distinct_map)
  show "(if colId r = colId p then assignGiven (syncMatched clk ident c p) r else r) = r"
  proof (cases "colId r = colId p")
    case True
    then have "r = p" using inj r assms(2) by (auto dest: inj_onD)
    then show ?thesis by (simp add: assignGiven_syncMatched)
  next
    case False
    then show ?thesis by simp
  qed
qed

lemma GenTableColumn_update_matched:
  assumes "distinct (map colId (genTableColumns s))" and "p \<in> set (genTableColumns s)"
  shows "snd (GenTableColumn_update (syncMatched clk ident c p) (\<lambda>r. colId r = colId p) (s, fs))
           = (s, tl fs)"
  using update_matched_rows [OF assms, of clk ident c]
  by (simp add: GenTableColumn_update_def)

text \<open>The values of \<^verbatim>\<open>prevColMap\<close> are stored columns of the table.\<close>

lemma objSet_member: "x \<in> set (objSet k v m) \<Longrightarrow> snd x = v \<or> x \<in> set m"
  by (induction m) (auto split: if_splits)

lemma objSet_values: "snd ` set (objSet k v m) \<subseteq> insert v (snd ` set m)"
  using objSet_member [of _ k v m] by blast

lemma buildPrevColMap_values_aux:
  "snd ` set (foldl (\<lambda>m c. objSet (toStringJs (columnName c)) c m) m0 cols)
     \<subseteq> snd ` set m0 \<union> set cols"
proof (induction cols arbitrary: m0)
  case Nil
  then show ?case by simp
next
  case (Cons c cols)
  have "snd ` set (foldl (\<lambda>m c. objSet (toStringJs (columnName c)) c m)
                     (objSet (toStringJs (columnName c)) c m0) cols)
          \<subseteq> snd ` set (objSet (toStringJs (columnName c)) c m0) \<union> set cols"
    by (rule Cons.IH)
  also have "\<dots> \<subseteq> insert c (snd ` set m0) \<union> set cols"
    using objSet_values [of "toStringJs (columnName c)" c m0] by auto
  finally show ?case by auto
qed

lemma buildPrevColMap_values: "snd ` set (buildPrevColMap cols) \<subseteq> set cols"
  using buildPrevColMap_values_aux [of "[]" cols] by (simp add: buildPrevColMap_def)

lemma buildPrevColMap_lookup:
  "map_of (buildPrevColMap cols) k = Some p \<Longrightarrow> p \<in> set cols"
  using buildPrevColMap_values [of cols] by (force dest: map_of_SomeD)

text \<open>
  With distinct identifiers in the store, the loop over the live columns leaves the store
  as it is, whether it ends or fails; and the final delete does not select a stored
  column whose name is that of a live column.
\<close>

lemma syncColumns_state:
  assumes "distinct (map colId (genTableColumns s))"
      and "snd ` set m \<subseteq> set (genTableColumns s)"
  shows "fst (snd (syncColumns clk ident m cs (s, fs))) = s"
  using assms
proof (induction cs arbitrary: fs)
  case Nil
  then show ?case by simp
next
  case (Cons c cs)
  show ?case
  proof (cases "map_of m (dbColumnName c)")
    case None
    then show ?thesis by simp
  next
    case (Some p)
    then have p: "p \<in> set (genTableColumns s)"
      using Cons.prems(2) by (force dest: map_of_SomeD)
    obtain r where u: "GenTableColumn_update (syncMatched clk ident c p)
                         (\<lambda>r. colId r = colId p) (s, fs) = (r, (s, tl fs))"
      using GenTableColumn_update_matched [OF Cons.prems(1) p, of clk ident c fs]
      by (metis prod.collapse)
    show ?thesis
    proof (cases r)
      case (Inl err)
      with Some u show ?thesis by simp
    next
      case (Inr v)
      with Some u Cons.IH [OF Cons.prems] show ?thesis by simp
    qed
  qed
qed

lemma delColIds_live:
  assumes "distinct (map colId rows)" and "snd ` set m \<subseteq> set rows"
      and "prev \<in> set rows" and "c \<in> set columns" and "columnName prev = JStr (dbColumnName c)"
  shows "colId prev \<notin> set (delColIds m columns)"
proof
  assume "colId prev \<in> set (delColIds m columns)"
  then obtain p where p: "p \<in> snd ` set m" and id: "colId p = colId prev"
    and dead: "\<not> contains (map (\<lambda>col. JStr (dbColumnName col)) columns) (columnName p)"
    by (force simp: delColIds_def)
  have "inj_on colId (set rows)" using assms(1) by (simp add: distinct_map)
  then have "p = prev" using p id assms(2,3) by (auto dest: inj_onD)
  with dead assms(4,5) show False by (auto simp: contains_def)
qed

lemma syncTable_try_rows:
  assumes "distinct (map colId (genTableColumns s))"
      and "find (\<lambda>r. genTableId r = ident) (genTables s) = Some genTable"
      and "columnsByName e (tableName genTable) = Some columns"
  shows "genTableColumns (fst (snd (syncTable_try e ident (s, fs)))) = genTableColumns s
       \<or> (\<exists>m. snd ` set m \<subseteq> set (genTableColumns s)
              \<and> genTableColumns (fst (snd (syncTable_try e ident (s, fs))))
                  = filter (\<lambda>r. colId r \<notin> set (delColIds m columns)) (genTableColumns s))"
proof (cases "rejects fs")
  case True
  then show ?thesis by (simp add: syncTable_try_def GenTable_findOne_def)
next
  case f1: False
  show ?thesis
  proof (cases "rejects (tl fs)")
    case True
    with f1 assms(2) show ?thesis
      by (simp add: syncTable_try_def GenTable_findOne_def GenTableColumn_findAll_def)
  next
    case f2: False
    define cols where "cols = sort_key (\<lambda>c. numKey (sort_col c))
                                (filter (\<lambda>c. tableId c = ident) (genTableColumns s))"
    define m where "m = buildPrevColMap cols"
    have sub: "snd ` set m \<subseteq> set (genTableColumns s)"
      using buildPrevColMap_values [of cols] by (auto simp: m_def cols_def)
    define body where "body = (\<lambda>t. case syncColumns (clock e) ident m columns t of
                                      (Inl err, t') \<Rightarrow> (Inl err, t')
                                    | (Inr u, t') \<Rightarrow>
                                        GenTableColumn_destroy
                                          (\<lambda>r. colId r \<in> set (delColIds m columns)) t')"
    have run: "syncTable_try e ident (s, fs) =
                 (if length cols \<le> 0 then (Inl OldDataAbnormal, (s, tl (tl fs)))
                  else if length columns \<le> 0 then (Inl SyncStructureMissing, (s, tl (tl fs)))
                  else transaction body (s, tl (tl fs)))"
      unfolding body_def m_def cols_def
      using f1 f2 assms(2,3)
      by (simp add: syncTable_try_def GenTable_findOne_def GenTableColumn_findAll_def)
    have st: "fst (snd (syncColumns (clock e) ident m columns (s, tl (tl fs)))) = s"
      using assms(1) sub by (rule syncColumns_state)
    obtain r fs1 where sc: "syncColumns (clock e) ident m columns (s, tl (tl fs)) = (r, (s, fs1))"
      using st by (metis prod.collapse)
    have tb: "genTableColumns (fst (snd (transaction body (s, tl (tl fs))))) = genTableColumns s
            \<or> genTableColumns (fst (snd (transaction body (s, tl (tl fs)))))
                = filter (\<lambda>r. colId r \<notin> set (delColIds m columns)) (genTableColumns s)"
    proof (cases r)
      case (Inl err)
      with sc show ?thesis by (simp add: transaction_def body_def)
    next
      case (Inr u)
      with sc show ?thesis
        by (simp add: transaction_def body_def GenTableColumn_destroy_def)
    qed
    show ?thesis
      using run tb sub by auto
  qed
qed

lemma syncTable_matched_row_stays:
  assumes "distinct (map colId (genTableColumns s))"
      and "find (\<lambda>r. genTableId r = ident) (genTables s) = Some genTable"
      and "columnsByName e (tableName genTable) = Some columns"
      and "c \<in> set columns"
      and "prev \<in> set (genTableColumns s)"
      and "columnName prev = JStr (dbColumnName c)"
  shows "prev \<in> set (genTableColumns (fst (snd (syncTable e ident (s, fs)))))"
proof -
  have eq: "fst (snd (syncTable e ident (s, fs))) = fst (snd (syncTable_try e ident (s, fs)))"
    by (simp add: syncTable_def split: prod.splits sum.splits)
  from syncTable_try_rows [OF assms(1,2,3), of fs]
  show ?thesis
  proof
    assume "genTableColumns (fst (snd (syncTable_try e ident (s, fs)))) = genTableColumns s"
    with assms(5) eq show ?thesis by simp
  next
    assume "\<exists>m. snd ` set m \<subseteq> set (genTableColumns s)
              \<and> genTableColumns (fst (snd (syncTable_try e ident (s, fs))))
                  = filter (\<lambda>r. colId r \<notin> set (delColIds m columns)) (genTableColumns s)"
    then obtain m where sub: "snd ` set m \<subseteq> set (genTableColumns s)"
      and rows: "genTableColumns (fst (snd (syncTable_try e ident (s, fs))))
                  = filter (\<lambda>r. colId r \<notin> set (delColIds m columns)) (genTableColumns s)"
      by blast
    have "colId prev \<notin> set (delColIds m columns)"
      using assms(1) sub assms(5,4,6) by (rule delColIds_live)
    with rows assms(5) eq show ?thesis by simp
  qed
qed

text \<open>
  Claim C1. Let the identifiers of the stored columns be distinct, let \<^verbatim>\<open>syncTable\<close> be
  called for a stored table, and let a stored column of that table have the name of one
  of the live columns of the table. Then after the call, whether it succeeded or failed
  and whatever the database rejected, the store holds the column record with the same
  identifier and name and with the stored \<open>dictType\<close>, \<open>queryType\<close>, \<open>htmlType\<close> and
  \<open>isRequired\<close>. All four are carried over under every condition, so in particular
  \<open>dictType\<close> and \<open>queryType\<close> when the column is not list-visible, and \<open>htmlType\<close> and
  \<open>isRequired\<close> when the prior record was required, not a key and insertable, or was
  editable: a widget select set by an administrator survives the synchronisation.
\<close>

theorem syncTable_keeps_stored_choices:
  assumes "distinct (map colId (genTableColumns s))"
      and "find (\<lambda>r. genTableId r = ident) (genTables s) = Some genTable"
      and "columnsByName e (tableName genTable) = Some columns"
      and "c \<in> set columns"
      and "prev \<in> set (genTableColumns s)"
      and "tableId prev = ident"
      and "columnName prev = JStr (dbColumnName c)"
  shows "\<exists>row \<in> set (genTableColumns (fst (snd (syncTable e ident (s, fs))))).
           colId row = colId prev \<and> columnName row = columnName prev
           \<and> dictType row = dictType prev \<and> queryType row = queryType prev
           \<and> htmlType row = htmlType prev \<and> isRequired row = isRequired prev"
  using syncTable_matched_row_stays [OF assms(1,2,3,4,5,7), of fs] by blast

theorem syncTable_keeps_stored_choices_witness:
  "distinct (map colId (genTableColumns demoStore))
   \<and> find (\<lambda>r. genTableId r = JNum 1) (genTables demoStore) = Some (genTables demoStore ! 0)
   \<and> columnsByName syncEnv (tableName (genTables demoStore ! 0))
       = Some [liveColumn ''content'' ''text'']
   \<and> storedContent \<in> set (genTableColumns demoStore)
   \<and> tableId storedContent = JNum 1
   \<and> columnName storedContent = JStr (dbColumnName (liveColumn ''content'' ''text''))
   \<and> isEdit storedContent = JNum 1
   \<and> fst (syncTable syncEnv (JNum 1) (demoStore, [])) = Inr ()
   \<and> (\<exists>row \<in> set (genTableColumns (fst (snd (syncTable syncEnv (JNum 1) (demoStore, []))))).
         colId row = JNum 7 \<and> columnName row = JStr ''content''
         \<and> dictType row = JStr ''notice_type'' \<and> queryType row = JStr ''LIKE''
         \<and> htmlType row = JStr ''select'' \<and> isRequired row = JNum 1)"
proof -
  have d: "distinct (map colId (genTableColumns demoStore))"
    by (simp add: demoStore_def storedContent_def)
  have f: "find (\<lambda>r. genTableId r = JNum 1) (genTables demoStore) = Some (genTables demoStore ! 0)"
    by (simp add: demoStore_def)
  have c: "columnsByName syncEnv (tableName (genTables demoStore ! 0))
             = Some [liveColumn ''content'' ''text'']"
    by (simp add: syncEnv_def demoStore_def initTable_def demoOrderTable_def)
  have m: "liveColumn ''content'' ''text'' \<in> set [liveColumn ''content'' ''text'']"
    by simp
  have p: "storedContent \<in> set (genTableColumns demoStore)"
    by (simp add: demoStore_def)
  have t: "tableId storedContent = JNum 1"
    by (simp add: storedContent_def)
  have n: "columnName storedContent = JStr (dbColumnName (liveColumn ''content'' ''text''))"
    by (simp add: storedContent_def liveColumn_def)
  have ok: "fst (syncTable syncEnv (JNum 1) (demoStore, [])) = Inr ()"
    by (simp add: syncTable_def syncTable_try_def GenTable_findOne_def
        GenTableColumn_findAll_def GenTableColumn_update_def GenTableColumn_destroy_def
        transaction_def rejects_def buildPrevColMap_def toStringJs_def syncEnv_def
        demoStore_def storedContent_def initTable_def demoOrderTable_def liveColumn_def
        numKey_def)
  show ?thesis
    using d f c p t n ok syncTable_keeps_stored_choices [OF d f c m p t n, of "[]"]
    by (simp add: storedContent_def)
qed

section \<open>Properties of the catalog queries\<close>

text \<open>
  Every non-empty table-name filter is a contiguous part of the text of both statements
  of \<^verbatim>\<open>getDbTablesQuery\<close>, and no replacement is bound.
\<close>

lemma whereStr_embeds:
  assumes "v \<noteq> []"
  shows "\<exists>p q. whereStr (JStr v) tComment = p @ v @ q"
proof -
  have "whereStr (JStr v) tComment
          = (''AND lower(table_name) like lower('' @ dq @ ''%'') @ v
            @ (''%'' @ dq @ '')'' @ whereStr JUndefined tComment)"
    using assms by (simp add: whereStr_def truthy_def toStringJs_def)
  then show ?thesis by blast
qed

lemma countSql_embeds: "\<exists>pre post. countSql (p @ v @ q) = pre @ v @ post"
proof -
  have "countSql (p @ v @ q)
          = (nl @ ''        SELECT COUNT(*) AS total'' @ nl @ catalogFilter @ ''        '' @ p)
            @ v @ (q @ nl @ ''      '')"
    by (simp add: countSql_def)
  then show ?thesis by blast
qed

lemma dataSql_embeds: "\<exists>pre post. dataSql (p @ v @ q) limit offset = pre @ v @ post"
proof -
  have "dataSql (p @ v @ q) limit offset
          = (nl @ ''        SELECT table_name AS tableName, table_comment AS tableComment, ''
             @ ''DATE_FORMAT(create_time, '' @ sq @ ''%Y-%m-%d %H:%i:%s'' @ sq
             @ '') AS createTime, update_time AS updateTime'' @ nl
             @ catalogFilter @ ''        '' @ p)
            @ v @ (q @ nl @ ''        LIMIT '' @ showInt limit @ '' OFFSET '' @ showInt offset)"
    by (simp add: dataSql_def)
  then show ?thesis by blast
qed

lemma getDbTablesQuery_embeds:
  assumes "v \<noteq> []" and "r \<in> set (getDbTablesQuery (JStr v) tComment limit offset)"
  shows "(\<exists>pre post. sqlText r = pre @ v @ post) \<and> replacements r = []"
proof -
  obtain p q where w: "whereStr (JStr v) tComment = p @ v @ q"
    using whereStr_embeds [OF assms(1)] by blast
  from assms(2) consider "r = \<lparr> sqlText = countSql (p @ v @ q), replacements = [] \<rparr>"
    | "r = \<lparr> sqlText = dataSql (p @ v @ q) limit offset, replacements = [] \<rparr>"
    by (auto simp: getDbTablesQuery_def w)
  then show ?thesis
    by cases (simp_all add: countSql_embeds dataSql_embeds)
qed

text \<open>
  Claim C9 at a concrete filter. With the table-name filter \<^verbatim>\<open>") OR ("" = "\<close> the
  statements sent by \<^verbatim>\<open>getDbTablesQuery\<close> contain the condition
  \<^verbatim>\<open>like lower("%") OR ("" = "%")\<close>: the filter is written into the text and nothing is
  bound. The sibling \<^verbatim>\<open>getDbTablesQueryByNames\<close> binds the same value as the replacement
  \<^verbatim>\<open>:tableNames\<close>.
\<close>

theorem getDbTablesQuery_injection:
  "map sqlText (getDbTablesQuery (JStr injection) JUndefined 10 0)
     = [countSql (''AND lower(table_name) like lower('' @ dq @ ''%'' @ dq @ '') OR (''
                  @ dq @ dq @ '' = '' @ dq @ ''%'' @ dq @ '')''),
        dataSql (''AND lower(table_name) like lower('' @ dq @ ''%'' @ dq @ '') OR (''
                 @ dq @ dq @ '' = '' @ dq @ ''%'' @ dq @ '')'') 10 0]
   \<and> map replacements (getDbTablesQuery (JStr injection) JUndefined 10 0) = [[], []]
   \<and> replacements (getDbTablesQueryByNames [injection]) = [(''tableNames'', [injection])]"
  by (simp add: getDbTablesQuery_def getDbTablesQueryByNames_def whereStr_def truthy_def
      toStringJs_def injection_def dq_def)

section \<open>Properties of rendering and packaging\<close>

subsection \<open>A table without \<^verbatim>\<open>subTableFk\<close> cannot be rendered\<close>

lemma getSubTableInfo_unset:
  "\<not> truthy (subTableFk genTable) \<Longrightarrow> getSubTableInfo e genTable st = (Inr None, st)"
  by (simp add: getSubTableInfo_def)

lemma renderCodeByTable_unset:
  assumes "\<not> truthy (subTableFk genTable)"
  shows "renderCodeByTable e T genTable (s, fs)
           = (Inl (if rejects fs then DbFailure else TypeError), (s, tl fs))"
  using assms
  by (simp add: renderCodeByTable_def GenTableColumn_findAll_def getSubTableInfo_unset)

text \<open>
  Claim C10. For a table record whose \<open>subTableFk\<close> is unset (undefined, null or
  empty), \<^verbatim>\<open>renderCodeByTable\<close> always fails: with the database error when the column
  query is rejected, and otherwise with the TypeError of reading \<^verbatim>\<open>pkCol\<close> on the
  missing result of \<^verbatim>\<open>getSubTableInfo\<close>. So does \<^verbatim>\<open>previewCode\<close> for the identifier
  of such a stored record. No template map is returned.
\<close>

theorem previewCode_fails_without_subTableFk:
  assumes "\<not> truthy (subTableFk genTable)"
  shows "fst (renderCodeByTable e T genTable (s, fs))
           = Inl (if rejects fs then DbFailure else TypeError)
       \<and> (find (\<lambda>r. genTableId r = ident) (genTables s) = Some genTable \<longrightarrow>
            fst (previewCode e T ident (s, fs))
              = Inl (if rejects fs \<or> rejects (tl fs) then DbFailure else TypeError))"
  using assms
  by (simp add: renderCodeByTable_unset previewCode_def GenTable_findOne_def)

theorem previewCode_fails_without_subTableFk_witness:
  "\<not> truthy (subTableFk (genTables demoStore ! 0))
   \<and> find (\<lambda>r. genTableId r = JNum 1) (genTables demoStore) = Some (genTables demoStore ! 0)
   \<and> fst (renderCodeByTable demoEnv demoTemplates (genTables demoStore ! 0) (demoStore, []))
       = Inl TypeError
   \<and> fst (previewCode demoEnv demoTemplates (JNum 1) (demoStore, [])) = Inl TypeError"
proof -
  have h: "\<not> truthy (subTableFk (genTables demoStore ! 0))"
    by (simp add: demoStore_def initTable_def truthy_def)
  have f: "find (\<lambda>r. genTableId r = JNum 1) (genTables demoStore) = Some (genTables demoStore ! 0)"
    by (simp add: demoStore_def)
  show ?thesis
    using h f previewCode_fails_without_subTableFk
                [OF h, of demoEnv demoTemplates demoStore "[]" "JNum 1"]
    by (simp add: rejects_def)
qed

text \<open>
  When the catalog answers as its query is written, with the key flag as the strings
  \<^verbatim>\<open>"1"\<close> and \<^verbatim>\<open>"0"\<close>, the test \<^verbatim>\<open>col.isPk === 1\<close> of \<^verbatim>\<open>getTablePriCol\<close> finds no
  column, and rendering fails for every table.
\<close>

lemma getSubTableInfo_string_pk:
  assumes "\<And>n cols. columnsByName e n = Some cols \<Longrightarrow> \<forall>c \<in> set cols. dbIsPk c \<noteq> JNum 1"
  shows "fst (getSubTableInfo e genTable st) \<noteq> Inr (Some v)"
proof -
  have nopk: "getTablePriCol cols = None" if "columnsByName e n = Some cols" for n cols
    using assms [OF that] by (simp add: getTablePriCol_def find_None_iff)
  show ?thesis
    by (auto simp: getSubTableInfo_def GenTable_findOne_def nopk
        split: prod.splits sum.splits option.splits if_splits)
qed

lemma renderCodeByTable_string_pk:
  assumes "\<And>n cols. columnsByName e n = Some cols \<Longrightarrow> \<forall>c \<in> set cols. dbIsPk c \<noteq> JNum 1"
  shows "isl (fst (renderCodeByTable e T genTable st))"
proof -
  obtain r st1 where f: "GenTableColumn_findAll (genTableId genTable) st = (r, st1)"
    by (cases "GenTableColumn_findAll (genTableId genTable) st")
  show ?thesis
  proof (cases r)
    case (Inl err)
    with f show ?thesis by (simp add: renderCodeByTable_def)
  next
    case (Inr columns)
    obtain r2 st2 where g: "getSubTableInfo e genTable st1 = (r2, st2)"
      by (cases "getSubTableInfo e genTable st1")
    show ?thesis
    proof (cases r2)
      case (Inl err)
      with f \<open>r = Inr columns\<close> g show ?thesis by (simp add: renderCodeByTable_def)
    next
      case r2: (Inr d)
      show ?thesis
      proof (cases d)
        case None
        with f \<open>r = Inr columns\<close> g r2 show ?thesis by (simp add: renderCodeByTable_def)
      next
        case (Some v)
        have "fst (getSubTableInfo e genTable st1) \<noteq> Inr (Some v)"
          using assms by (rule getSubTableInfo_string_pk)
        with g r2 Some show ?thesis by simp
      qed
    qed
  qed
qed

subsection \<open>The archive of a download\<close>

text \<open>
  With the key flag as the catalog query writes it, rendering fails for every table
  (\<open>renderCodeByTable_string_pk\<close>), so \<^verbatim>\<open>genZipCode\<close> fails before \<^verbatim>\<open>genZip\<close> is reached:
  every download of at least one table fails, and the file system is as before.
\<close>

lemma genZipCode_string_pk:
  assumes "\<And>n cols. columnsByName e n = Some cols \<Longrightarrow> \<forall>c \<in> set cols. dbIsPk c \<noteq> JNum 1"
  shows "isl (fst (genZipCode e T zipPath name (st, files)))
       \<and> snd (snd (genZipCode e T zipPath name (st, files))) = files"
proof -
  obtain r st1 where f: "GenTable_findLatest name st = (r, st1)"
    by (cases "GenTable_findLatest name st")
  show ?thesis
  proof (cases r)
    case (Inl err)
    with f show ?thesis by (simp add: genZipCode_def)
  next
    case r: (Inr found)
    show ?thesis
    proof (cases found)
      case None
      with f r show ?thesis by (simp add: genZipCode_def)
    next
      case (Some genTable)
      obtain r2 st2 where g: "renderCodeByTable e T genTable st1 = (r2, st2)"
        by (cases "renderCodeByTable e T genTable st1")
      have "isl (fst (renderCodeByTable e T genTable st1))"
        using assms by (rule renderCodeByTable_string_pk)
      then obtain err where "r2 = Inl err"
        using g by (cases r2) auto
      with f r Some g show ?thesis by (simp add: genZipCode_def)
    qed
  qed
qed

lemma downloadCode_string_pk:
  assumes "\<And>n cols. columnsByName e n = Some cols \<Longrightarrow> \<forall>c \<in> set cols. dbIsPk c \<noteq> JNum 1"
  shows "isl (fst (downloadCode e T zipPath (name # names) (st, files)))
       \<and> snd (snd (downloadCode e T zipPath (name # names) (st, files))) = files"
proof -
  obtain r st1 files1 where g: "genZipCode e T zipPath name (st, files) = (r, (st1, files1))"
    by (metis prod.collapse)
  have "isl (fst (genZipCode e T zipPath name (st, files)))
        \<and> snd (snd (genZipCode e T zipPath name (st, files))) = files"
    using assms by (rule genZipCode_string_pk)
  then have "isl r \<and> files1 = files"
    using g by simp
  then obtain err where "r = Inl err" and "files1 = files"
    by (cases r) auto
  with g show ?thesis by (simp add: downloadCode_def)
qed

text \<open>
  \<^verbatim>\<open>genZip\<close> itself opens the path anew on every call: what it leaves there are the files
  of that one call.
\<close>

lemma genZip_overwrites:
  "genZip zipPath tplCodeMap modName files = (Inr u, files') \<Longrightarrow>
   files' zipPath = Some (case getFilePaths tplCodeMap modName of Inr fp \<Rightarrow> fp | Inl _ \<Rightarrow> [])
   \<and> (\<forall>p. p \<noteq> zipPath \<longrightarrow> files' p = files p)"
  by (auto simp: genZip_def split: sum.splits)

lemmas render_eval = downloadCode_def genZipCode_def genZip_def getFilePaths_def fmtMap_def
  renderCodeByTable_def getSubTableInfo_def getTablePriCol_def GenTable_findLatest_def
  GenTable_findOne_def GenTableColumn_findAll_def rejects_def truthy_def numKey_def
  treeEnv_def treeStore_def treeTable_def demoTemplates_def replace_def

text \<open>
  Claim C7 at two concrete downloads, with the catalog answering as its query is written.
  Two stored tree-mode tables, \<^verbatim>\<open>la_shop_goods\<close> and \<^verbatim>\<open>la_shop_order\<close>: the download of
  both fails in \<^verbatim>\<open>getSubTableInfo\<close>, because \<^verbatim>\<open>getTablePriCol\<close> compares the key flag
  \<^verbatim>\<open>"1"\<close> with the number 1 and finds no key column. Two stored tables as the import
  leaves them, without \<^verbatim>\<open>subTableFk\<close>: the download fails with the TypeError of
  \<^verbatim>\<open>renderCodeByTable\<close>. In both cases nothing is written at the path of the archive: no
  archive holds the files of the requested tables.
\<close>

theorem downloadCode_writes_no_archive:
  "fst (downloadCode treeEnv demoTemplates ''file.zip'' [''la_shop_goods'', ''la_shop_order'']
          ((treeStore, []), Map.empty))
     = Inl (DownloadCodeError (GenZipCodeError (GetSubTableInfoError TypeError)))
   \<and> snd (snd (downloadCode treeEnv demoTemplates ''file.zip''
                  [''la_shop_goods'', ''la_shop_order''] ((treeStore, []), Map.empty)))
         ''file.zip'' = None
   \<and> fst (downloadCode treeEnv demoTemplates ''file.zip'' [''la_demo_order'', ''la_shop_goods'']
            ((demoStore, []), Map.empty))
     = Inl (DownloadCodeError (GenZipCodeError TypeError))
   \<and> snd (snd (downloadCode treeEnv demoTemplates ''file.zip''
                  [''la_demo_order'', ''la_shop_goods''] ((demoStore, []), Map.empty)))
         ''file.zip'' = None"
  by (simp add: render_eval liveColumn_def initTable_def demoStore_def demoOrderTable_def
      storedContent_def)

end
